theory Spec2Isabelle
  imports Complex_Main "HOL-Library.Sublist"
begin

section \<open>JavaScript strings\<close>

text \<open>
  A JavaScript string is a sequence of UTF-16 code units. The source file holds Devanagari,
  Kannada and emoji text, so every literal is written here by its code units; runs of
  printable ASCII are written as \<open>ascii ''...''\<close>.
\<close>

type_synonym jsstring = "nat list"

definition ascii :: "string \<Rightarrow> jsstring" where
  "ascii s = map of_char s"

text \<open>\<open>s.includes(k)\<close>: \<open>k\<close> occurs in \<open>s\<close> as a contiguous run of code units.\<close>

fun "includes" :: "jsstring \<Rightarrow> jsstring \<Rightarrow> bool" where
  "includes [] k = (k = [])"
| "includes (c # cs) k = (prefix k (c # cs) \<or> includes cs k)"

text \<open>
  \<open>s.trim()\<close> removes the white space and line terminators of ECMAScript from both ends:
  TAB, LF, VT, FF, CR, SPACE, NBSP, U+1680, U+2000 to U+200A, U+2028, U+2029, U+202F,
  U+205F, U+3000 and U+FEFF.
\<close>

definition isWhiteSpace :: "nat \<Rightarrow> bool" where
  "isWhiteSpace c =
     (c = 0x09 \<or> c = 0x0A \<or> c = 0x0B \<or> c = 0x0C \<or> c = 0x0D \<or> c = 0x20 \<or> c = 0xA0 \<or>
      c = 0x1680 \<or> (0x2000 \<le> c \<and> c \<le> 0x200A) \<or> c = 0x2028 \<or> c = 0x2029 \<or>
      c = 0x202F \<or> c = 0x205F \<or> c = 0x3000 \<or> c = 0xFEFF)"

definition trim :: "jsstring \<Rightarrow> jsstring" where
  "trim s = rev (dropWhile isWhiteSpace (rev (dropWhile isWhiteSpace s)))"

text \<open>
  \<open>s.toLowerCase()\<close>. The letters A to Z move to a to z. Two code units outside ASCII have a
  lower-case form that contains an ASCII letter: U+0130 becomes i followed by U+0307, and
  the Kelvin sign U+212A becomes k. Every other cased letter of Unicode has a lower-case
  form made of code units outside ASCII and outside the Devanagari and Kannada blocks;
  the model leaves those letters as they are. No keyword tested below contains such a
  code unit, so every \<open>includes\<close> test of the program has the value it has in JavaScript.
\<close>

definition lowerUnit :: "nat \<Rightarrow> jsstring" where
  "lowerUnit c =
     (if 0x41 \<le> c \<and> c \<le> 0x5A then [c + 0x20]
      else if c = 0x0130 then [0x69, 0x0307]
      else if c = 0x212A then [0x6B]
      else [c])"

definition toLowerCase :: "jsstring \<Rightarrow> jsstring" where
  "toLowerCase s = concat (map lowerUnit s)"

text \<open>\<open>xs[i]\<close> on an array: \<open>undefined\<close> (here \<open>None\<close>) outside the index range.\<close>

definition jsIndex :: "'a list \<Rightarrow> int \<Rightarrow> 'a option" where
  "jsIndex xs i = (if 0 \<le> i \<and> i < int (length xs) then Some (xs ! nat i) else None)"

section \<open>The template tables\<close>

text \<open>
  \<open>currentLanguage\<close> is initialised to \<open>'english'\<close> and written only by the language
  selector, whose four options are the four keys of the tables.
\<close>

datatype Language = english | hindi | marathi | kannada

definition greeting :: "Language \<Rightarrow> jsstring" where
  \<comment> \<open>translations[currentLanguage].greeting, lines 11, 27, 43, 59\<close>
  "greeting lang =
    (case lang of
       english \<Rightarrow>
         ascii ''Hello! I'm here to support you. How are you feeling today? '' @
         [0xD83D, 0xDE0A]
     | hindi \<Rightarrow>
         [0x0928, 0x092E, 0x0938, 0x094D, 0x0924, 0x0947, 0x0021, 0x0020, 0x092E,
          0x0948, 0x0902, 0x0020, 0x0906, 0x092A, 0x0915, 0x0940, 0x0020, 0x0938,
          0x0939, 0x093E, 0x092F, 0x0924, 0x093E, 0x0020, 0x0915, 0x0947, 0x0020,
          0x0932, 0x093F, 0x090F, 0x0020, 0x092F, 0x0939, 0x093E, 0x0901, 0x0020,
          0x0939, 0x0942, 0x0901, 0x0964, 0x0020, 0x0906, 0x091C, 0x0020, 0x0906,
          0x092A, 0x0020, 0x0915, 0x0948, 0x0938, 0x093E, 0x0020, 0x092E, 0x0939,
          0x0938, 0x0942, 0x0938, 0x0020, 0x0915, 0x0930, 0x0020, 0x0930, 0x0939,
          0x0947, 0x0020, 0x0939, 0x0948, 0x0902, 0x003F, 0x0020, 0xD83D, 0xDE0A]
     | marathi \<Rightarrow>
         [0x0928, 0x092E, 0x0938, 0x094D, 0x0915, 0x093E, 0x0930, 0x0021, 0x0020,
          0x092E, 0x0940, 0x0020, 0x0924, 0x0941, 0x092E, 0x091A, 0x094D, 0x092F,
          0x093E, 0x0020, 0x092E, 0x0926, 0x0924, 0x0940, 0x0938, 0x093E, 0x0920,
          0x0940, 0x0020, 0x092F, 0x0947, 0x0925, 0x0947, 0x0020, 0x0906, 0x0939,
          0x0947, 0x0964, 0x0020, 0x0906, 0x091C, 0x0020, 0x0924, 0x0941, 0x092E,
          0x094D, 0x0939, 0x0940, 0x0020, 0x0915, 0x0938, 0x0947, 0x0020, 0x0935,
          0x093E, 0x091F, 0x0924, 0x0020, 0x0906, 0x0939, 0x093E, 0x0924, 0x003F,
          0x0020, 0xD83D, 0xDE0A]
     | kannada \<Rightarrow>
         [0x0CA8, 0x0CAE, 0x0CB8, 0x0CCD, 0x0C95, 0x0CBE, 0x0CB0, 0x0021, 0x0020,
          0x0CA8, 0x0CBF, 0x0CAE, 0x0CCD, 0x0CAE, 0x0CA8, 0x0CCD, 0x0CA8, 0x0CC1,
          0x0020, 0x0CAC, 0x0CC6, 0x0C82, 0x0CAC, 0x0CB2, 0x0CBF, 0x0CB8, 0x0CB2,
          0x0CC1, 0x0020, 0x0CA8, 0x0CBE, 0x0CA8, 0x0CC1, 0x0020, 0x0C87, 0x0CB2,
          0x0CCD, 0x0CB2, 0x0CBF, 0x0CA6, 0x0CCD, 0x0CA6, 0x0CC7, 0x0CA8, 0x0CC6,
          0x0964, 0x0020, 0x0C87, 0x0C82, 0x0CA6, 0x0CC1, 0x0020, 0x0CA8, 0x0CC0,
          0x0CB5, 0x0CC1, 0x0020, 0x0CB9, 0x0CC7, 0x0C97, 0x0CC6, 0x0020, 0x0C85,
          0x0CA8, 0x0CBF, 0x0CB8, 0x0CC1, 0x0CA4, 0x0CCD, 0x0CA4, 0x0CBF, 0x0CA6,
          0x0CC6, 0x003F, 0x0020, 0xD83D, 0xDE0A])"

definition moodLabels :: "Language \<Rightarrow> (jsstring \<times> jsstring) list" where
  \<comment> \<open>translations[currentLanguage].moodLabels, an object literal: keys in source order\<close>
  "moodLabels lang =
    (case lang of
       english \<Rightarrow>
         [(ascii ''happy'', ascii ''Happy''),
          (ascii ''sad'', ascii ''Sad''),
          (ascii ''anxious'', ascii ''Anxious''),
          (ascii ''angry'', ascii ''Angry''),
          (ascii ''calm'', ascii ''Calm''),
          (ascii ''confused'', ascii ''Confused'')]
     | hindi \<Rightarrow>
         [(ascii ''happy'', [0x0916, 0x0941, 0x0936]),
          (ascii ''sad'', [0x0909, 0x0926, 0x093E, 0x0938]),
          (ascii ''anxious'', [0x091A, 0x093F, 0x0902, 0x0924, 0x093F, 0x0924]),
          (ascii ''angry'', [0x0917, 0x0941, 0x0938, 0x094D, 0x0938, 0x093E]),
          (ascii ''calm'', [0x0936, 0x093E, 0x0902, 0x0924]),
          (ascii ''confused'', [0x092D, 0x094D, 0x0930, 0x092E, 0x093F, 0x0924])]
     | marathi \<Rightarrow>
         [(ascii ''happy'', [0x0906, 0x0928, 0x0902, 0x0926, 0x0940]),
          (ascii ''sad'', [0x0926, 0x0941, 0x0903, 0x0916, 0x0940]),
          (ascii ''anxious'', [0x091A, 0x093F, 0x0902, 0x0924, 0x093E, 0x0917, 0x094D, 0x0930, 0x0938,
             0x094D, 0x0924]),
          (ascii ''angry'', [0x0930, 0x093E, 0x0917, 0x093E, 0x0935, 0x0932, 0x0947, 0x0932, 0x093E]),
          (ascii ''calm'', [0x0936, 0x093E, 0x0902, 0x0924]),
          (ascii ''confused'', [0x0917, 0x094B, 0x0902, 0x0927, 0x0933, 0x0932, 0x0947, 0x0932, 0x093E])]
     | kannada \<Rightarrow>
         [(ascii ''happy'', [0x0CB8, 0x0C82, 0x0CA4, 0x0CCB, 0x0CB7]),
          (ascii ''sad'', [0x0CA6, 0x0CC1, 0x0C83, 0x0C96]),
          (ascii ''anxious'', [0x0C86, 0x0CA4, 0x0C82, 0x0C95]),
          (ascii ''angry'', [0x0C95, 0x0CCB, 0x0CAA]),
          (ascii ''calm'', [0x0CB6, 0x0CBE, 0x0C82, 0x0CA4]),
          (ascii ''confused'', [0x0C97, 0x0CCA, 0x0C82, 0x0CA6, 0x0CB2])])"

definition depression :: "Language \<Rightarrow> jsstring list" where
  \<comment> \<open>mentalHealthResponses.depression[currentLanguage], lines 73-79\<close>
  "depression lang =
    (case lang of
       english \<Rightarrow>
         [ascii ''I understand you're going through a tough time. Remember, it's okay '' @
          ascii ''to feel this way, and you're not alone. '' @
          [0xD83E, 0xDD17] @
          ascii '' Try taking small steps like going for a walk or talking to someone '' @
          ascii ''you trust.'',
          ascii ''Depression can feel overwhelming, but you're stronger than you know. '' @
          [0xD83D, 0xDCAA] @
          ascii '' Consider practicing deep breathing exercises or journaling your '' @
          ascii ''thoughts.'']
     | hindi \<Rightarrow>
         [[0x092E, 0x0948, 0x0902, 0x0020, 0x0938, 0x092E, 0x091D, 0x0020, 0x0938,
           0x0915, 0x0924, 0x093E, 0x0020, 0x0939, 0x0942, 0x0901, 0x0020, 0x0915,
           0x093F, 0x0020, 0x0906, 0x092A, 0x0020, 0x0915, 0x0920, 0x093F, 0x0928,
           0x0020, 0x0938, 0x092E, 0x092F, 0x0020, 0x0938, 0x0947, 0x0020, 0x0917,
           0x0941, 0x091C, 0x0930, 0x0020, 0x0930, 0x0939, 0x0947, 0x0020, 0x0939,
           0x0948, 0x0902, 0x0964, 0x0020, 0x092F, 0x093E, 0x0926, 0x0020, 0x0930,
           0x0916, 0x0947, 0x0902, 0x002C, 0x0020, 0x0910, 0x0938, 0x093E, 0x0020,
           0x092E, 0x0939, 0x0938, 0x0942, 0x0938, 0x0020, 0x0915, 0x0930, 0x0928,
           0x093E, 0x0020, 0x0920, 0x0940, 0x0915, 0x0020, 0x0939, 0x0948, 0x002C,
           0x0020, 0x0914, 0x0930, 0x0020, 0x0906, 0x092A, 0x0020, 0x0905, 0x0915,
           0x0947, 0x0932, 0x0947, 0x0020, 0x0928, 0x0939, 0x0940, 0x0902, 0x0020,
           0x0939, 0x0948, 0x0902, 0x0964, 0x0020, 0xD83E, 0xDD17, 0x0020, 0x091B,
           0x094B, 0x091F, 0x0947, 0x0020, 0x0915, 0x0926, 0x092E, 0x0020, 0x0909,
           0x0920, 0x093E, 0x0928, 0x0947, 0x0020, 0x0915, 0x0940, 0x0020, 0x0915,
           0x094B, 0x0936, 0x093F, 0x0936, 0x0020, 0x0915, 0x0930, 0x0947, 0x0902,
           0x0020, 0x091C, 0x0948, 0x0938, 0x0947, 0x0020, 0x091F, 0x0939, 0x0932,
           0x0928, 0x093E, 0x0020, 0x092F, 0x093E, 0x0020, 0x0915, 0x093F, 0x0938,
           0x0940, 0x0020, 0x0935, 0x093F, 0x0936, 0x094D, 0x0935, 0x0938, 0x0928,
           0x0940, 0x092F, 0x0020, 0x0935, 0x094D, 0x092F, 0x0915, 0x094D, 0x0924,
           0x093F, 0x0020, 0x0938, 0x0947, 0x0020, 0x092C, 0x093E, 0x0924, 0x0020,
           0x0915, 0x0930, 0x0928, 0x093E, 0x0964]]
     | marathi \<Rightarrow>
         [[0x092E, 0x0932, 0x093E, 0x0020, 0x0938, 0x092E, 0x091C, 0x0924, 0x0947,
           0x0020, 0x0915, 0x0940, 0x0020, 0x0924, 0x0941, 0x092E, 0x094D, 0x0939,
           0x0940, 0x0020, 0x0915, 0x0920, 0x0940, 0x0923, 0x0020, 0x0915, 0x093E,
           0x0933, 0x093E, 0x0924, 0x0942, 0x0928, 0x0020, 0x091C, 0x093E, 0x0924,
           0x0020, 0x0906, 0x0939, 0x093E, 0x0924, 0x0964, 0x0020, 0x0932, 0x0915,
           0x094D, 0x0937, 0x093E, 0x0924, 0x0020, 0x0920, 0x0947, 0x0935, 0x093E,
           0x002C, 0x0020, 0x0905, 0x0938, 0x0947, 0x0020, 0x0935, 0x093E, 0x091F,
           0x0923, 0x0947, 0x0020, 0x0938, 0x093E, 0x092E, 0x093E, 0x0928, 0x094D,
           0x092F, 0x0020, 0x0906, 0x0939, 0x0947, 0x002C, 0x0020, 0x0906, 0x0923,
           0x093F, 0x0020, 0x0924, 0x0941, 0x092E, 0x094D, 0x0939, 0x0940, 0x0020,
           0x090F, 0x0915, 0x091F, 0x0947, 0x0020, 0x0928, 0x093E, 0x0939, 0x0940,
           0x0020, 0x0906, 0x0939, 0x093E, 0x0924, 0x0964, 0x0020, 0xD83E, 0xDD17,
           0x0020, 0x0932, 0x0939, 0x093E, 0x0928, 0x0020, 0x092A, 0x093E, 0x0935,
           0x0932, 0x0947, 0x0020, 0x0909, 0x091A, 0x0932, 0x0923, 0x094D, 0x092F,
           0x093E, 0x091A, 0x093E, 0x0020, 0x092A, 0x094D, 0x0930, 0x092F, 0x0924,
           0x094D, 0x0928, 0x0020, 0x0915, 0x0930, 0x093E, 0x0020, 0x091C, 0x0938,
           0x0947, 0x0020, 0x092B, 0x093F, 0x0930, 0x093E, 0x092F, 0x0932, 0x093E,
           0x0020, 0x091C, 0x093E, 0x0923, 0x0947, 0x0020, 0x0915, 0x093F, 0x0902,
           0x0935, 0x093E, 0x0020, 0x0924, 0x0941, 0x092E, 0x091A, 0x094D, 0x092F,
           0x093E, 0x0020, 0x0935, 0x093F, 0x0936, 0x094D, 0x0935, 0x093E, 0x0938,
           0x0942, 0x0020, 0x0935, 0x094D, 0x092F, 0x0915, 0x094D, 0x0924, 0x0940,
           0x0936, 0x0940, 0x0020, 0x092C, 0x094B, 0x0932, 0x0923, 0x0947, 0x0964]]
     | kannada \<Rightarrow>
         [[0x0CA8, 0x0CC0, 0x0CB5, 0x0CC1, 0x0020, 0x0C95, 0x0CB7, 0x0CCD, 0x0C9F,
           0x0CA6, 0x0020, 0x0CB8, 0x0CAE, 0x0CAF, 0x0CA6, 0x0CB2, 0x0CCD, 0x0CB2,
           0x0CBF, 0x0CA6, 0x0CCD, 0x0CA6, 0x0CC0, 0x0CB0, 0x0CBF, 0x0020, 0x0C8E,
           0x0C82, 0x0CA6, 0x0CC1, 0x0020, 0x0CA8, 0x0CA8, 0x0C97, 0x0CC6, 0x0020,
           0x0C85, 0x0CB0, 0x0CCD, 0x0CA5, 0x0CB5, 0x0CBE, 0x0C97, 0x0CC1, 0x0CA4,
           0x0CCD, 0x0CA4, 0x0CA6, 0x0CC6, 0x0964, 0x0020, 0x0CA8, 0x0CC6, 0x0CA8,
           0x0CAA, 0x0CBF, 0x0CA1, 0x0CBF, 0x002C, 0x0020, 0x0CB9, 0x0CC0, 0x0C97,
           0x0CC6, 0x0020, 0x0C85, 0x0CA8, 0x0CBF, 0x0CB8, 0x0CC1, 0x0CB5, 0x0CC1,
           0x0CA6, 0x0CC1, 0x0020, 0x0CB8, 0x0CBE, 0x0CAE, 0x0CBE, 0x0CA8, 0x0CCD,
           0x0CAF, 0x002C, 0x0020, 0x0CAE, 0x0CA4, 0x0CCD, 0x0CA4, 0x0CC1, 0x0020,
           0x0CA8, 0x0CC0, 0x0CB5, 0x0CC1, 0x0020, 0x0C92, 0x0CAC, 0x0CCD, 0x0CAC,
           0x0C82, 0x0C9F, 0x0CBF, 0x0C97, 0x0CB0, 0x0CB2, 0x0CCD, 0x0CB2, 0x0964,
           0x0020, 0xD83E, 0xDD17, 0x0020, 0x0CA8, 0x0CA1, 0x0CC6, 0x0CAF, 0x0CB2,
           0x0CC1, 0x0020, 0x0CB9, 0x0CCB, 0x0C97, 0x0CC1, 0x0CB5, 0x0CC1, 0x0CA6,
           0x0CC1, 0x0020, 0x0C85, 0x0CA5, 0x0CB5, 0x0CBE, 0x0020, 0x0CA8, 0x0C82,
           0x0CAC, 0x0CBF, 0x0C95, 0x0CC6, 0x0CAF, 0x0020, 0x0CB5, 0x0CCD, 0x0CAF,
           0x0C95, 0x0CCD, 0x0CA4, 0x0CBF, 0x0CAF, 0x0CCA, 0x0C82, 0x0CA6, 0x0CBF,
           0x0C97, 0x0CC6, 0x0020, 0x0CAE, 0x0CBE, 0x0CA4, 0x0CA8, 0x0CBE, 0x0CA1,
           0x0CC1, 0x0CB5, 0x0C82, 0x0CA4, 0x0CB9, 0x0020, 0x0CB8, 0x0CA3, 0x0CCD,
           0x0CA3, 0x0020, 0x0CB9, 0x0CC6, 0x0C9C, 0x0CCD, 0x0C9C, 0x0CC6, 0x0C97,
           0x0CB3, 0x0CA8, 0x0CCD, 0x0CA8, 0x0CC1, 0x0020, 0x0CA4, 0x0CC6, 0x0C97,
           0x0CC6, 0x0CA6, 0x0CC1, 0x0C95, 0x0CCA, 0x0CB3, 0x0CCD, 0x0CB3, 0x0CB2,
           0x0CC1, 0x0020, 0x0CAA, 0x0CCD, 0x0CB0, 0x0CAF, 0x0CA4, 0x0CCD, 0x0CA8,
           0x0CBF, 0x0CB8, 0x0CBF, 0x0964]])"

definition anxiety :: "Language \<Rightarrow> jsstring list" where
  \<comment> \<open>mentalHealthResponses.anxiety[currentLanguage], lines 80-86\<close>
  "anxiety lang =
    (case lang of
       english \<Rightarrow>
         [ascii ''Anxiety can be really challenging. Try the 4-7-8 breathing technique: '' @
          ascii ''breathe in for 4, hold for 7, exhale for 8. '' @
          [0xD83C, 0xDF2C, 0xFE0F] @
          ascii '' You're going to get through this.'',
          ascii ''I hear you're feeling anxious. Ground yourself by naming 5 things you '' @
          ascii ''can see, 4 you can touch, 3 you can hear, 2 you can smell, and 1 you '' @
          ascii ''can taste. '' @
          [0xD83E, 0xDDD8, 0x200D, 0x2640, 0xFE0F]]
     | hindi \<Rightarrow>
         [[0x091A, 0x093F, 0x0902, 0x0924, 0x093E, 0x0020, 0x0935, 0x093E, 0x0938,
           0x094D, 0x0924, 0x0935, 0x0020, 0x092E, 0x0947, 0x0902, 0x0020, 0x091A,
           0x0941, 0x0928, 0x094C, 0x0924, 0x0940, 0x092A, 0x0942, 0x0930, 0x094D,
           0x0923, 0x0020, 0x0939, 0x094B, 0x0020, 0x0938, 0x0915, 0x0924, 0x0940,
           0x0020, 0x0939, 0x0948, 0x0964, 0x0020, 0x0034, 0x002D, 0x0037, 0x002D,
           0x0038, 0x0020, 0x0938, 0x093E, 0x0902, 0x0938, 0x0020, 0x0932, 0x0947,
           0x0928, 0x0947, 0x0020, 0x0915, 0x0940, 0x0020, 0x0924, 0x0915, 0x0928,
           0x0940, 0x0915, 0x0020, 0x0906, 0x091C, 0x093C, 0x092E, 0x093E, 0x090F,
           0x0902, 0x003A, 0x0020, 0x0034, 0x0020, 0x0915, 0x0947, 0x0020, 0x0932,
           0x093F, 0x090F, 0x0020, 0x0938, 0x093E, 0x0902, 0x0938, 0x0020, 0x0932,
           0x0947, 0x0902, 0x002C, 0x0020, 0x0037, 0x0020, 0x0915, 0x0947, 0x0020,
           0x0932, 0x093F, 0x090F, 0x0020, 0x0930, 0x094B, 0x0915, 0x0947, 0x0902,
           0x002C, 0x0020, 0x0038, 0x0020, 0x0915, 0x0947, 0x0020, 0x0932, 0x093F,
           0x090F, 0x0020, 0x091B, 0x094B, 0x0921, 0x093C, 0x0947, 0x0902, 0x0964,
           0x0020, 0xD83C, 0xDF2C, 0xFE0F, 0x0020, 0x0906, 0x092A, 0x0020, 0x0907,
           0x0938, 0x0938, 0x0947, 0x0020, 0x0928, 0x093F, 0x0915, 0x0932, 0x0020,
           0x091C, 0x093E, 0x090F, 0x0902, 0x0917, 0x0947, 0x0964]]
     | marathi \<Rightarrow>
         [[0x091A, 0x093F, 0x0902, 0x0924, 0x093E, 0x0020, 0x0916, 0x0930, 0x094B,
           0x0916, 0x0930, 0x091A, 0x0020, 0x0906, 0x0935, 0x094D, 0x0939, 0x093E,
           0x0928, 0x093E, 0x0924, 0x094D, 0x092E, 0x0915, 0x0020, 0x0905, 0x0938,
           0x0942, 0x0020, 0x0936, 0x0915, 0x0924, 0x0947, 0x0964, 0x0020, 0x0034,
           0x002D, 0x0037, 0x002D, 0x0038, 0x0020, 0x0936, 0x094D, 0x0935, 0x093E,
           0x0938, 0x0020, 0x0924, 0x0902, 0x0924, 0x094D, 0x0930, 0x0020, 0x0935,
           0x093E, 0x092A, 0x0930, 0x0942, 0x0928, 0x0020, 0x092A, 0x0939, 0x093E,
           0x003A, 0x0020, 0x0034, 0x0020, 0x0938, 0x093E, 0x0920, 0x0940, 0x0020,
           0x0936, 0x094D, 0x0935, 0x093E, 0x0938, 0x0020, 0x0918, 0x094D, 0x092F,
           0x093E, 0x002C, 0x0020, 0x0037, 0x0020, 0x0938, 0x093E, 0x0920, 0x0940,
           0x0020, 0x0927, 0x0930, 0x093E, 0x002C, 0x0020, 0x0038, 0x0020, 0x0938,
           0x093E, 0x0920, 0x0940, 0x0020, 0x0938, 0x094B, 0x0921, 0x093E, 0x0964,
           0x0020, 0xD83C, 0xDF2C, 0xFE0F, 0x0020, 0x0924, 0x0941, 0x092E, 0x094D,
           0x0939, 0x0940, 0x0020, 0x092F, 0x093E, 0x0924, 0x0942, 0x0928, 0x0020,
           0x092C, 0x093E, 0x0939, 0x0947, 0x0930, 0x0020, 0x092A, 0x0921, 0x093E,
           0x0932, 0x0964]]
     | kannada \<Rightarrow>
         [[0x0C86, 0x0CA4, 0x0C82, 0x0C95, 0x0CB5, 0x0CC1, 0x0020, 0x0CA8, 0x0CBF,
           0x0C9C, 0x0CB5, 0x0CBE, 0x0C97, 0x0CBF, 0x0CAF, 0x0CC2, 0x0020, 0x0CB8,
           0x0CB5, 0x0CBE, 0x0CB2, 0x0CBF, 0x0CA8, 0x0CA6, 0x0CCD, 0x0CA6, 0x0CBE,
           0x0C97, 0x0CBF, 0x0CB0, 0x0CAC, 0x0CB9, 0x0CC1, 0x0CA6, 0x0CC1, 0x0964,
           0x0020, 0x0034, 0x002D, 0x0037, 0x002D, 0x0038, 0x0020, 0x0C89, 0x0CB8,
           0x0CBF, 0x0CB0, 0x0CBE, 0x0C9F, 0x0CA6, 0x0020, 0x0CA4, 0x0C82, 0x0CA4,
           0x0CCD, 0x0CB0, 0x0CB5, 0x0CA8, 0x0CCD, 0x0CA8, 0x0CC1, 0x0020, 0x0CAA,
           0x0CCD, 0x0CB0, 0x0CAF, 0x0CA4, 0x0CCD, 0x0CA8, 0x0CBF, 0x0CB8, 0x0CBF,
           0x003A, 0x0020, 0x0034, 0x0020, 0x0C95, 0x0CCD, 0x0C95, 0x0CC6, 0x0020,
           0x0C89, 0x0CB8, 0x0CBF, 0x0CB0, 0x0CC1, 0x0020, 0x0CA4, 0x0CC6, 0x0C97,
           0x0CC6, 0x0CA6, 0x0CC1, 0x0C95, 0x0CCA, 0x0CB3, 0x0CCD, 0x0CB3, 0x0CBF,
           0x002C, 0x0020, 0x0037, 0x0020, 0x0C95, 0x0CCD, 0x0C95, 0x0CC6, 0x0020,
           0x0CB9, 0x0CBF, 0x0CA1, 0x0CBF, 0x0CA6, 0x0CBF, 0x0C9F, 0x0CCD, 0x0C9F,
           0x0CC1, 0x0C95, 0x0CCA, 0x0CB3, 0x0CCD, 0x0CB3, 0x0CBF, 0x002C, 0x0020,
           0x0038, 0x0020, 0x0C95, 0x0CCD, 0x0C95, 0x0CC6, 0x0020, 0x0CAC, 0x0CBF,
           0x0CA1, 0x0CBF, 0x0964, 0x0020, 0xD83C, 0xDF2C, 0xFE0F, 0x0020, 0x0CA8,
           0x0CC0, 0x0CB5, 0x0CC1, 0x0020, 0x0C87, 0x0CA6, 0x0CA8, 0x0CCD, 0x0CA8,
           0x0CC1, 0x0020, 0x0C9C, 0x0CAF, 0x0CBF, 0x0CB8, 0x0CC1, 0x0CB5, 0x0CBF,
           0x0CB0, 0x0CBF, 0x0964]])"

definition stress :: "Language \<Rightarrow> jsstring list" where
  \<comment> \<open>mentalHealthResponses.stress[currentLanguage], lines 87-93\<close>
  "stress lang =
    (case lang of
       english \<Rightarrow>
         [ascii ''Stress is your body's way of responding to challenges. Take a moment '' @
          ascii ''to pause and breathe deeply. '' @
          [0xD83C, 0xDF38] @
          ascii '' Consider breaking your tasks into smaller, manageable pieces.'',
          ascii ''I can sense you're feeling stressed. Try progressive muscle '' @
          ascii ''relaxation or listen to calming music. '' @
          [0xD83C, 0xDFB5] @
          ascii '' Remember to be kind to yourself.'']
     | hindi \<Rightarrow>
         [[0x0924, 0x0928, 0x093E, 0x0935, 0x0020, 0x0906, 0x092A, 0x0915, 0x0947,
           0x0020, 0x0936, 0x0930, 0x0940, 0x0930, 0x0020, 0x0915, 0x093E, 0x0020,
           0x091A, 0x0941, 0x0928, 0x094C, 0x0924, 0x093F, 0x092F, 0x094B, 0x0902,
           0x0020, 0x0915, 0x093E, 0x0020, 0x091C, 0x0935, 0x093E, 0x092C, 0x0020,
           0x0926, 0x0947, 0x0928, 0x0947, 0x0020, 0x0915, 0x093E, 0x0020, 0x0924,
           0x0930, 0x0940, 0x0915, 0x093E, 0x0020, 0x0939, 0x0948, 0x0964, 0x0020,
           0x090F, 0x0915, 0x0020, 0x092A, 0x0932, 0x0020, 0x0930, 0x0941, 0x0915,
           0x0947, 0x0902, 0x0020, 0x0914, 0x0930, 0x0020, 0x0917, 0x0939, 0x0930,
           0x0940, 0x0020, 0x0938, 0x093E, 0x0902, 0x0938, 0x0020, 0x0932, 0x0947,
           0x0902, 0x0964, 0x0020, 0xD83C, 0xDF38, 0x0020, 0x0905, 0x092A, 0x0928,
           0x0947, 0x0020, 0x0915, 0x093E, 0x0930, 0x094D, 0x092F, 0x094B, 0x0902,
           0x0020, 0x0915, 0x094B, 0x0020, 0x091B, 0x094B, 0x091F, 0x0947, 0x002C,
           0x0020, 0x092A, 0x094D, 0x0930, 0x092C, 0x0902, 0x0927, 0x0928, 0x0940,
           0x092F, 0x0020, 0x091F, 0x0941, 0x0915, 0x0921, 0x093C, 0x094B, 0x0902,
           0x0020, 0x092E, 0x0947, 0x0902, 0x0020, 0x092C, 0x093E, 0x0902, 0x091F,
           0x0928, 0x0947, 0x0020, 0x092A, 0x0930, 0x0020, 0x0935, 0x093F, 0x091A,
           0x093E, 0x0930, 0x0020, 0x0915, 0x0930, 0x0947, 0x0902, 0x0964]]
     | marathi \<Rightarrow>
         [[0x0924, 0x0923, 0x093E, 0x0935, 0x0020, 0x0939, 0x093E, 0x0020, 0x0924,
           0x0941, 0x092E, 0x091A, 0x094D, 0x092F, 0x093E, 0x0020, 0x0936, 0x0930,
           0x0940, 0x0930, 0x093E, 0x091A, 0x093E, 0x0020, 0x0906, 0x0935, 0x094D,
           0x0939, 0x093E, 0x0928, 0x093E, 0x0902, 0x0928, 0x093E, 0x0020, 0x092A,
           0x094D, 0x0930, 0x0924, 0x093F, 0x0938, 0x093E, 0x0926, 0x0020, 0x0926,
           0x0947, 0x0923, 0x094D, 0x092F, 0x093E, 0x091A, 0x093E, 0x0020, 0x092E,
           0x093E, 0x0930, 0x094D, 0x0917, 0x0020, 0x0906, 0x0939, 0x0947, 0x0964,
           0x0020, 0x090F, 0x0915, 0x0020, 0x0915, 0x094D, 0x0937, 0x0923, 0x0020,
           0x0925, 0x093E, 0x0902, 0x092C, 0x093E, 0x0020, 0x0906, 0x0923, 0x093F,
           0x0020, 0x0916, 0x094B, 0x0932, 0x0020, 0x0936, 0x094D, 0x0935, 0x093E,
           0x0938, 0x0020, 0x0918, 0x094D, 0x092F, 0x093E, 0x0964, 0x0020, 0xD83C,
           0xDF38, 0x0020, 0x0924, 0x0941, 0x092E, 0x091A, 0x0940, 0x0020, 0x0915,
           0x093E, 0x092E, 0x0947, 0x0020, 0x0932, 0x0939, 0x093E, 0x0928, 0x002C,
           0x0020, 0x0935, 0x094D, 0x092F, 0x0935, 0x0938, 0x094D, 0x0925, 0x093E,
           0x092A, 0x0928, 0x0020, 0x0915, 0x0930, 0x0923, 0x094D, 0x092F, 0x093E,
           0x092F, 0x094B, 0x0917, 0x094D, 0x092F, 0x0020, 0x092D, 0x093E, 0x0917,
           0x093E, 0x0902, 0x092E, 0x0927, 0x094D, 0x092F, 0x0947, 0x0020, 0x0935,
           0x093F, 0x092D, 0x093E, 0x0917, 0x0923, 0x094D, 0x092F, 0x093E, 0x091A,
           0x093E, 0x0020, 0x0935, 0x093F, 0x091A, 0x093E, 0x0930, 0x0020, 0x0915,
           0x0930, 0x093E, 0x0964]]
     | kannada \<Rightarrow>
         [[0x0C92, 0x0CA4, 0x0CCD, 0x0CA4, 0x0CA1, 0x0CB5, 0x0CC1, 0x0020, 0x0CB8,
           0x0CB5, 0x0CBE, 0x0CB2, 0x0CC1, 0x0C97, 0x0CB3, 0x0CBF, 0x0C97, 0x0CC6,
           0x0020, 0x0CAA, 0x0CCD, 0x0CB0, 0x0CA4, 0x0CBF, 0x0C95, 0x0CCD, 0x0CB0,
           0x0CBF, 0x0CAF, 0x0CBF, 0x0CB8, 0x0CC1, 0x0CB5, 0x0020, 0x0CA8, 0x0CBF,
           0x0CAE, 0x0CCD, 0x0CAE, 0x0020, 0x0CA6, 0x0CC7, 0x0CB9, 0x0CA6, 0x0020,
           0x0CB5, 0x0CBF, 0x0CA7, 0x0CBE, 0x0CA8, 0x0CB5, 0x0CBE, 0x0C97, 0x0CBF,
           0x0CA6, 0x0CC6, 0x0964, 0x0020, 0x0C92, 0x0C82, 0x0CA6, 0x0CC1, 0x0020,
           0x0C95, 0x0CCD, 0x0CB7, 0x0CA3, 0x0020, 0x0CB5, 0x0CBF, 0x0CB0, 0x0CBE,
           0x0CAE, 0x0020, 0x0CA4, 0x0CC6, 0x0C97, 0x0CC6, 0x0CA6, 0x0CC1, 0x0C95,
           0x0CCA, 0x0C82, 0x0CA1, 0x0CC1, 0x0020, 0x0C86, 0x0CB3, 0x0CB5, 0x0CBE,
           0x0C97, 0x0CBF, 0x0020, 0x0C89, 0x0CB8, 0x0CBF, 0x0CB0, 0x0CBE, 0x0CA1,
           0x0CBF, 0x0964, 0x0020, 0xD83C, 0xDF38, 0x0020, 0x0CA8, 0x0CBF, 0x0CAE,
           0x0CCD, 0x0CAE, 0x0020, 0x0C95, 0x0CBE, 0x0CB0, 0x0CCD, 0x0CAF, 0x0C97,
           0x0CB3, 0x0CA8, 0x0CCD, 0x0CA8, 0x0CC1, 0x0020, 0x0CB8, 0x0CA3, 0x0CCD,
           0x0CA3, 0x002C, 0x0020, 0x0CA8, 0x0CBF, 0x0CB0, 0x0CCD, 0x0CB5, 0x0CB9,
           0x0CBF, 0x0CB8, 0x0CAC, 0x0CB9, 0x0CC1, 0x0CA6, 0x0CBE, 0x0CA6, 0x0020,
           0x0CAD, 0x0CBE, 0x0C97, 0x0C97, 0x0CB3, 0x0CBE, 0x0C97, 0x0CBF, 0x0020,
           0x0CB5, 0x0CBF, 0x0CAD, 0x0C9C, 0x0CBF, 0x0CB8, 0x0CC1, 0x0CB5, 0x0CC1,
           0x0CA6, 0x0CA8, 0x0CCD, 0x0CA8, 0x0CC1, 0x0020, 0x0CAA, 0x0CB0, 0x0CBF,
           0x0C97, 0x0CA3, 0x0CBF, 0x0CB8, 0x0CBF, 0x0964]])"

definition genericResponses :: "Language \<Rightarrow> jsstring list" where
  \<comment> \<open>the object literal genericResponses of generateBotResponse, lines 196-201\<close>
  "genericResponses lang =
    (case lang of
       english \<Rightarrow>
         [ascii ''I hear you. Can you tell me more about what you're experiencing? '' @
          [0xD83E, 0xDD17],
          ascii ''Thank you for sharing that with me. How long have you been feeling '' @
          ascii ''this way? '' @
          [0xD83D, 0xDC99],
          ascii ''That sounds challenging. What do you think might help you feel '' @
          ascii ''better? '' @
          [0xD83C, 0xDF1F]]
     | hindi \<Rightarrow>
         [[0x092E, 0x0948, 0x0902, 0x0020, 0x0906, 0x092A, 0x0915, 0x0940, 0x0020,
           0x092C, 0x093E, 0x0924, 0x0020, 0x0938, 0x0941, 0x0928, 0x0020, 0x0930,
           0x0939, 0x093E, 0x0020, 0x0939, 0x0942, 0x0901, 0x0964, 0x0020, 0x0915,
           0x094D, 0x092F, 0x093E, 0x0020, 0x0906, 0x092A, 0x0020, 0x092E, 0x0941,
           0x091D, 0x0947, 0x0020, 0x092C, 0x0924, 0x093E, 0x0020, 0x0938, 0x0915,
           0x0924, 0x0947, 0x0020, 0x0939, 0x0948, 0x0902, 0x0020, 0x0915, 0x093F,
           0x0020, 0x0906, 0x092A, 0x0020, 0x0915, 0x094D, 0x092F, 0x093E, 0x0020,
           0x0905, 0x0928, 0x0941, 0x092D, 0x0935, 0x0020, 0x0915, 0x0930, 0x0020,
           0x0930, 0x0939, 0x0947, 0x0020, 0x0939, 0x0948, 0x0902, 0x003F, 0x0020,
           0xD83E, 0xDD17],
          [0x092E, 0x0947, 0x0930, 0x0947, 0x0020, 0x0938, 0x093E, 0x0925, 0x0020,
           0x0938, 0x093E, 0x091D, 0x093E, 0x0020, 0x0915, 0x0930, 0x0928, 0x0947,
           0x0020, 0x0915, 0x0947, 0x0020, 0x0932, 0x093F, 0x090F, 0x0020, 0x0927,
           0x0928, 0x094D, 0x092F, 0x0935, 0x093E, 0x0926, 0x0964, 0x0020, 0x0906,
           0x092A, 0x0020, 0x0915, 0x093F, 0x0924, 0x0928, 0x0947, 0x0020, 0x0938,
           0x092E, 0x092F, 0x0020, 0x0938, 0x0947, 0x0020, 0x0910, 0x0938, 0x093E,
           0x0020, 0x092E, 0x0939, 0x0938, 0x0942, 0x0938, 0x0020, 0x0915, 0x0930,
           0x0020, 0x0930, 0x0939, 0x0947, 0x0020, 0x0939, 0x0948, 0x0902, 0x003F,
           0x0020, 0xD83D, 0xDC99]]
     | marathi \<Rightarrow>
         [[0x092E, 0x0940, 0x0020, 0x0924, 0x0941, 0x092E, 0x091A, 0x0947, 0x0020,
           0x0910, 0x0915, 0x0924, 0x0020, 0x0906, 0x0939, 0x0947, 0x0964, 0x0020,
           0x0924, 0x0941, 0x092E, 0x094D, 0x0939, 0x0940, 0x0020, 0x092E, 0x0932,
           0x093E, 0x0020, 0x0938, 0x093E, 0x0902, 0x0917, 0x0942, 0x0020, 0x0936,
           0x0915, 0x0924, 0x093E, 0x0020, 0x0915, 0x093E, 0x0020, 0x0915, 0x0940,
           0x0020, 0x0924, 0x0941, 0x092E, 0x094D, 0x0939, 0x0940, 0x0020, 0x0915,
           0x093E, 0x092F, 0x0020, 0x0905, 0x0928, 0x0941, 0x092D, 0x0935, 0x0924,
           0x0020, 0x0906, 0x0939, 0x093E, 0x0924, 0x003F, 0x0020, 0xD83E, 0xDD17],
          [0x092E, 0x093E, 0x091D, 0x094D, 0x092F, 0x093E, 0x0936, 0x0940, 0x0020,
           0x0938, 0x093E, 0x092E, 0x093E, 0x092F, 0x093F, 0x0915, 0x0020, 0x0915,
           0x0947, 0x0932, 0x094D, 0x092F, 0x093E, 0x092C, 0x0926, 0x094D, 0x0926,
           0x0932, 0x0020, 0x0927, 0x0928, 0x094D, 0x092F, 0x0935, 0x093E, 0x0926,
           0x0964, 0x0020, 0x0924, 0x0941, 0x092E, 0x094D, 0x0939, 0x0940, 0x0020,
           0x0915, 0x093F, 0x0924, 0x0940, 0x0020, 0x0915, 0x093E, 0x0933, 0x093E,
           0x092A, 0x093E, 0x0938, 0x0942, 0x0928, 0x0020, 0x0905, 0x0938, 0x0947,
           0x0020, 0x0935, 0x093E, 0x091F, 0x0924, 0x0020, 0x0906, 0x0939, 0x0947,
           0x003F, 0x0020, 0xD83D, 0xDC99]]
     | kannada \<Rightarrow>
         [[0x0CA8, 0x0CBE, 0x0CA8, 0x0CC1, 0x0020, 0x0CA8, 0x0CBF, 0x0CAE, 0x0CCD,
           0x0CAE, 0x0020, 0x0CAE, 0x0CBE, 0x0CA4, 0x0CC1, 0x0020, 0x0C95, 0x0CC7,
           0x0CB3, 0x0CC1, 0x0CA4, 0x0CCD, 0x0CA4, 0x0CBF, 0x0CA6, 0x0CCD, 0x0CA6,
           0x0CC7, 0x0CA8, 0x0CC6, 0x002E, 0x0020, 0x0CA8, 0x0CC0, 0x0CB5, 0x0CC1,
           0x0020, 0x0C8F, 0x0CA8, 0x0CA8, 0x0CCD, 0x0CA8, 0x0CC1, 0x0020, 0x0C85,
           0x0CA8, 0x0CC1, 0x0CAD, 0x0CB5, 0x0CBF, 0x0CB8, 0x0CC1, 0x0CA4, 0x0CCD,
           0x0CA4, 0x0CBF, 0x0CA6, 0x0CCD, 0x0CA6, 0x0CC0, 0x0CB0, 0x0CBF, 0x0020,
           0x0C8E, 0x0C82, 0x0CA6, 0x0CC1, 0x0020, 0x0CA8, 0x0CA8, 0x0C97, 0x0CC6,
           0x0020, 0x0CB9, 0x0CC6, 0x0C9A, 0x0CCD, 0x0C9A, 0x0CC1, 0x0020, 0x0CB9,
           0x0CC7, 0x0CB3, 0x0CAC, 0x0CB9, 0x0CC1, 0x0CA6, 0x0CC7, 0x003F, 0x0020,
           0xD83E, 0xDD17],
          [0x0CA8, 0x0CA8, 0x0CCD, 0x0CA8, 0x0CCA, 0x0C82, 0x0CA6, 0x0CBF, 0x0C97,
           0x0CC6, 0x0020, 0x0CB9, 0x0C82, 0x0C9A, 0x0CBF, 0x0C95, 0x0CCA, 0x0C82,
           0x0CA1, 0x0CBF, 0x0CA6, 0x0CCD, 0x0CA6, 0x0C95, 0x0CCD, 0x0C95, 0x0CBE,
           0x0C97, 0x0CBF, 0x0020, 0x0CA7, 0x0CA8, 0x0CCD, 0x0CAF, 0x0CB5, 0x0CBE,
           0x0CA6, 0x0C97, 0x0CB3, 0x0CC1, 0x002E, 0x0020, 0x0CA8, 0x0CC0, 0x0CB5,
           0x0CC1, 0x0020, 0x0C8E, 0x0CB7, 0x0CCD, 0x0C9F, 0x0CC1, 0x0020, 0x0C95,
           0x0CBE, 0x0CB2, 0x0CA6, 0x0CBF, 0x0C82, 0x0CA6, 0x0020, 0x0CB9, 0x0CC0,
           0x0C97, 0x0CC6, 0x0020, 0x0C85, 0x0CA8, 0x0CBF, 0x0CB8, 0x0CC1, 0x0CA4,
           0x0CCD, 0x0CA4, 0x0CBF, 0x0CA6, 0x0CC6, 0x003F, 0x0020, 0xD83D, 0xDC99]])"

definition happyResponse :: "Language \<Rightarrow> jsstring" where
  \<comment> \<open>the conditional expression of the branch mood === happy, lines 159-162\<close>
  "happyResponse lang =
    (if lang = english then
       ascii ''That's wonderful to hear! '' @
       [0xD83C, 0xDF1F] @
       ascii '' Keep nurturing those positive feelings. What's bringing you joy '' @
       ascii ''today?''
     else if lang = hindi then
       [0x092F, 0x0939, 0x0020, 0x0938, 0x0941, 0x0928, 0x0915, 0x0930, 0x0020, 0x092C,
        0x0939, 0x0941, 0x0924, 0x0020, 0x0905, 0x091A, 0x094D, 0x091B, 0x093E, 0x0020,
        0x0932, 0x0917, 0x093E, 0x0021, 0x0020, 0xD83C, 0xDF1F, 0x0020, 0x0907, 0x0928,
        0x0020, 0x0938, 0x0915, 0x093E, 0x0930, 0x093E, 0x0924, 0x094D, 0x092E, 0x0915,
        0x0020, 0x092D, 0x093E, 0x0935, 0x0928, 0x093E, 0x0913, 0x0902, 0x0020, 0x0915,
        0x094B, 0x0020, 0x092C, 0x0928, 0x093E, 0x090F, 0x0020, 0x0930, 0x0916, 0x0947,
        0x0902, 0x0964, 0x0020, 0x0906, 0x091C, 0x0020, 0x0906, 0x092A, 0x0915, 0x094B,
        0x0020, 0x0915, 0x094D, 0x092F, 0x093E, 0x0020, 0x0916, 0x0941, 0x0936, 0x0940,
        0x0020, 0x0926, 0x0947, 0x0020, 0x0930, 0x0939, 0x093E, 0x0020, 0x0939, 0x0948,
        0x003F]
     else if lang = marathi then
       [0x0939, 0x0947, 0x0020, 0x0910, 0x0915, 0x0942, 0x0928, 0x0020, 0x0916, 0x0942,
        0x092A, 0x0020, 0x0906, 0x0928, 0x0902, 0x0926, 0x0020, 0x091D, 0x093E, 0x0932,
        0x093E, 0x0021, 0x0020, 0xD83C, 0xDF1F, 0x0020, 0x092F, 0x093E, 0x0020, 0x0938,
        0x0915, 0x093E, 0x0930, 0x093E, 0x0924, 0x094D, 0x092E, 0x0915, 0x0020, 0x092D,
        0x093E, 0x0935, 0x0928, 0x093E, 0x0902, 0x0928, 0x093E, 0x0020, 0x0935, 0x093E,
        0x0922, 0x0935, 0x0924, 0x0020, 0x0930, 0x0939, 0x093E, 0x0964, 0x0020, 0x0906,
        0x091C, 0x0020, 0x0924, 0x0941, 0x092E, 0x094D, 0x0939, 0x093E, 0x0932, 0x093E,
        0x0020, 0x0915, 0x093E, 0x092F, 0x0020, 0x0906, 0x0928, 0x0902, 0x0926, 0x0020,
        0x0926, 0x0947, 0x0924, 0x0020, 0x0906, 0x0939, 0x0947, 0x003F]
     else
       [0x0C87, 0x0CA6, 0x0CA8, 0x0CCD, 0x0CA8, 0x0CC1, 0x0020, 0x0C95, 0x0CC7, 0x0CB3,
        0x0CBF, 0x0020, 0x0CA4, 0x0CC1, 0x0C82, 0x0CAC, 0x0CBE, 0x0020, 0x0CB8, 0x0C82,
        0x0CA4, 0x0CCB, 0x0CB7, 0x0CB5, 0x0CBE, 0x0CAF, 0x0CBF, 0x0CA4, 0x0CC1, 0x0021,
        0x0020, 0xD83C, 0xDF1F, 0x0020, 0x0C88, 0x0020, 0x0CA7, 0x0CA8, 0x0CBE, 0x0CA4,
        0x0CCD, 0x0CAE, 0x0C95, 0x0020, 0x0CAD, 0x0CBE, 0x0CB5, 0x0CA8, 0x0CC6, 0x0C97,
        0x0CB3, 0x0CA8, 0x0CCD, 0x0CA8, 0x0CC1, 0x0020, 0x0CAA, 0x0CCB, 0x0CB7, 0x0CBF,
        0x0CB8, 0x0CC1, 0x0CA4, 0x0CCD, 0x0CA4, 0x0CB2, 0x0CC7, 0x0020, 0x0C87, 0x0CB0,
        0x0CBF, 0x0964, 0x0020, 0x0C87, 0x0C82, 0x0CA6, 0x0CC1, 0x0020, 0x0CA8, 0x0CBF,
        0x0CAE, 0x0C97, 0x0CC6, 0x0020, 0x0CB8, 0x0C82, 0x0CA4, 0x0CCB, 0x0CB7, 0x0020,
        0x0CA4, 0x0CB0, 0x0CC1, 0x0CA4, 0x0CCD, 0x0CA4, 0x0CBF, 0x0CB0, 0x0CC1, 0x0CB5,
        0x0CC1, 0x0CA6, 0x0CC1, 0x0020, 0x0C8F, 0x0CA8, 0x0CC1, 0x003F])"

definition calmResponse :: "Language \<Rightarrow> jsstring" where
  \<comment> \<open>the conditional expression of the branch mood === calm, lines 164-167\<close>
  "calmResponse lang =
    (if lang = english then
       ascii ''It's great that you're feeling calm! '' @
       [0xD83E, 0xDDD8, 0x200D, 0x2640, 0xFE0F] @
       ascii '' This is a perfect state for reflection and mindfulness. How can I '' @
       ascii ''support you today?''
     else if lang = hindi then
       [0x092F, 0x0939, 0x0020, 0x092C, 0x0939, 0x0941, 0x0924, 0x0020, 0x0905, 0x091A,
        0x094D, 0x091B, 0x093E, 0x0020, 0x0939, 0x0948, 0x0020, 0x0915, 0x093F, 0x0020,
        0x0906, 0x092A, 0x0020, 0x0936, 0x093E, 0x0902, 0x0924, 0x0020, 0x092E, 0x0939,
        0x0938, 0x0942, 0x0938, 0x0020, 0x0915, 0x0930, 0x0020, 0x0930, 0x0939, 0x0947,
        0x0020, 0x0939, 0x0948, 0x0902, 0x0021, 0x0020, 0xD83E, 0xDDD8, 0x200D, 0x2640,
        0xFE0F, 0x0020, 0x092F, 0x0939, 0x0020, 0x091A, 0x093F, 0x0902, 0x0924, 0x0928,
        0x0020, 0x0914, 0x0930, 0x0020, 0x0938, 0x091A, 0x0947, 0x0924, 0x0924, 0x093E,
        0x0020, 0x0915, 0x0947, 0x0020, 0x0932, 0x093F, 0x090F, 0x0020, 0x090F, 0x0915,
        0x0020, 0x0906, 0x0926, 0x0930, 0x094D, 0x0936, 0x0020, 0x0938, 0x094D, 0x0925,
        0x093F, 0x0924, 0x093F, 0x0020, 0x0939, 0x0948, 0x0964, 0x0020, 0x0906, 0x091C,
        0x0020, 0x092E, 0x0948, 0x0902, 0x0020, 0x0906, 0x092A, 0x0915, 0x0940, 0x0020,
        0x0915, 0x0948, 0x0938, 0x0947, 0x0020, 0x0938, 0x0939, 0x093E, 0x092F, 0x0924,
        0x093E, 0x0020, 0x0915, 0x0930, 0x0020, 0x0938, 0x0915, 0x0924, 0x093E, 0x0020,
        0x0939, 0x0942, 0x0901, 0x003F]
     else if lang = marathi then
       [0x0924, 0x0941, 0x092E, 0x094D, 0x0939, 0x0940, 0x0020, 0x0936, 0x093E, 0x0902,
        0x0924, 0x0020, 0x0935, 0x093E, 0x091F, 0x0924, 0x0020, 0x0906, 0x0939, 0x093E,
        0x0924, 0x0020, 0x0939, 0x0947, 0x0020, 0x0916, 0x0942, 0x092A, 0x0020, 0x091A,
        0x093E, 0x0902, 0x0917, 0x0932, 0x0947, 0x0020, 0x0906, 0x0939, 0x0947, 0x0021,
        0x0020, 0xD83E, 0xDDD8, 0x200D, 0x2640, 0xFE0F, 0x0020, 0x0939, 0x0940, 0x0020,
        0x091A, 0x093F, 0x0902, 0x0924, 0x0928, 0x0020, 0x0906, 0x0923, 0x093F, 0x0020,
        0x091C, 0x093E, 0x0917, 0x0930, 0x0942, 0x0915, 0x0924, 0x0947, 0x0938, 0x093E,
        0x0920, 0x0940, 0x0020, 0x090F, 0x0915, 0x0020, 0x0906, 0x0926, 0x0930, 0x094D,
        0x0936, 0x0020, 0x0938, 0x094D, 0x0925, 0x093F, 0x0924, 0x0940, 0x0020, 0x0906,
        0x0939, 0x0947, 0x0964, 0x0020, 0x0906, 0x091C, 0x0020, 0x092E, 0x0940, 0x0020,
        0x0924, 0x0941, 0x092E, 0x091A, 0x0940, 0x0020, 0x0915, 0x0936, 0x0940, 0x0020,
        0x092E, 0x0926, 0x0924, 0x0020, 0x0915, 0x0930, 0x0942, 0x0020, 0x0936, 0x0915,
        0x0924, 0x094B, 0x003F]
     else
       [0x0CA8, 0x0CC0, 0x0CB5, 0x0CC1, 0x0020, 0x0CB6, 0x0CBE, 0x0C82, 0x0CA4, 0x0CB5,
        0x0CBE, 0x0C97, 0x0CBF, 0x0020, 0x0C85, 0x0CA8, 0x0CBF, 0x0CB8, 0x0CC1, 0x0CA4,
        0x0CCD, 0x0CA4, 0x0CBF, 0x0CB0, 0x0CC1, 0x0CB5, 0x0CC1, 0x0CA6, 0x0CC1, 0x0020,
        0x0CAC, 0x0CB9, 0x0CB3, 0x0020, 0x0C92, 0x0CB3, 0x0CCD, 0x0CB3, 0x0CC6, 0x0CAF,
        0x0CA6, 0x0CC1, 0x0021, 0x0020, 0xD83E, 0xDDD8, 0x200D, 0x2640, 0xFE0F, 0x0020,
        0x0C87, 0x0CA6, 0x0CC1, 0x0020, 0x0C9A, 0x0CBF, 0x0C82, 0x0CA4, 0x0CA8, 0x0CC6,
        0x0020, 0x0CAE, 0x0CA4, 0x0CCD, 0x0CA4, 0x0CC1, 0x0020, 0x0CB8, 0x0CBE, 0x0CB5,
        0x0CA7, 0x0CBE, 0x0CA8, 0x0CA4, 0x0CC6, 0x0C97, 0x0CC6, 0x0020, 0x0CAA, 0x0CB0,
        0x0CBF, 0x0CAA, 0x0CC2, 0x0CB0, 0x0CCD, 0x0CA3, 0x0020, 0x0CB8, 0x0CCD, 0x0CA5,
        0x0CBF, 0x0CA4, 0x0CBF, 0x002E, 0x0020, 0x0C87, 0x0C82, 0x0CA6, 0x0CC1, 0x0020,
        0x0CA8, 0x0CBE, 0x0CA8, 0x0CC1, 0x0020, 0x0CA8, 0x0CBF, 0x0CAE, 0x0CCD, 0x0CAE,
        0x0CA8, 0x0CCD, 0x0CA8, 0x0CC1, 0x0020, 0x0CB9, 0x0CC7, 0x0C97, 0x0CC6, 0x0020,
        0x0CAC, 0x0CC6, 0x0C82, 0x0CAC, 0x0CB2, 0x0CBF, 0x0CB8, 0x0CAC, 0x0CB9, 0x0CC1,
        0x0CA6, 0x0CC1, 0x003F])"

definition otherResponse :: "Language \<Rightarrow> jsstring" where
  \<comment> \<open>the conditional expression of the final else branch, lines 169-172\<close>
  "otherResponse lang =
    (if lang = english then
       ascii ''Thank you for sharing how you're feeling. I'm here to listen and '' @
       ascii ''support you. '' @
       [0xD83D, 0xDC99] @
       ascii '' What would you like to talk about?''
     else if lang = hindi then
       [0x0906, 0x092A, 0x0928, 0x0947, 0x0020, 0x0905, 0x092A, 0x0928, 0x0940, 0x0020,
        0x092D, 0x093E, 0x0935, 0x0928, 0x093E, 0x090F, 0x0902, 0x0020, 0x0938, 0x093E,
        0x091D, 0x093E, 0x0020, 0x0915, 0x0930, 0x0928, 0x0947, 0x0020, 0x0915, 0x0947,
        0x0020, 0x0932, 0x093F, 0x090F, 0x0020, 0x0927, 0x0928, 0x094D, 0x092F, 0x0935,
        0x093E, 0x0926, 0x0964, 0x0020, 0x092E, 0x0948, 0x0902, 0x0020, 0x0938, 0x0941,
        0x0928, 0x0928, 0x0947, 0x0020, 0x0914, 0x0930, 0x0020, 0x0906, 0x092A, 0x0915,
        0x093E, 0x0020, 0x0938, 0x092E, 0x0930, 0x094D, 0x0925, 0x0928, 0x0020, 0x0915,
        0x0930, 0x0928, 0x0947, 0x0020, 0x0915, 0x0947, 0x0020, 0x0932, 0x093F, 0x090F,
        0x0020, 0x092F, 0x0939, 0x093E, 0x0901, 0x0020, 0x0939, 0x0942, 0x0901, 0x0964,
        0x0020, 0xD83D, 0xDC99, 0x0020, 0x0906, 0x092A, 0x0020, 0x0915, 0x093F, 0x0938,
        0x0020, 0x092C, 0x093E, 0x0930, 0x0947, 0x0020, 0x092E, 0x0947, 0x0902, 0x0020,
        0x092C, 0x093E, 0x0924, 0x0020, 0x0915, 0x0930, 0x0928, 0x093E, 0x0020, 0x091A,
        0x093E, 0x0939, 0x0947, 0x0902, 0x0917, 0x0947, 0x003F]
     else if lang = marathi then
       [0x0924, 0x0941, 0x092E, 0x091A, 0x094D, 0x092F, 0x093E, 0x0020, 0x092D, 0x093E,
        0x0935, 0x0928, 0x093E, 0x0020, 0x0938, 0x093E, 0x092E, 0x093E, 0x092F, 0x093F,
        0x0915, 0x0020, 0x0915, 0x0947, 0x0932, 0x094D, 0x092F, 0x093E, 0x092C, 0x0926,
        0x094D, 0x0926, 0x0932, 0x0020, 0x0927, 0x0928, 0x094D, 0x092F, 0x0935, 0x093E,
        0x0926, 0x0964, 0x0020, 0x092E, 0x0940, 0x0020, 0x0910, 0x0915, 0x0923, 0x094D,
        0x092F, 0x093E, 0x0938, 0x093E, 0x0920, 0x0940, 0x0020, 0x0906, 0x0923, 0x093F,
        0x0020, 0x0924, 0x0941, 0x092E, 0x091A, 0x0947, 0x0020, 0x0938, 0x092E, 0x0930,
        0x094D, 0x0925, 0x0928, 0x0020, 0x0915, 0x0930, 0x0923, 0x094D, 0x092F, 0x093E,
        0x0938, 0x093E, 0x0920, 0x0940, 0x0020, 0x092F, 0x0947, 0x0925, 0x0947, 0x0020,
        0x0906, 0x0939, 0x0947, 0x0964, 0x0020, 0xD83D, 0xDC99, 0x0020, 0x0924, 0x0941,
        0x092E, 0x094D, 0x0939, 0x093E, 0x0932, 0x093E, 0x0020, 0x0915, 0x0936, 0x093E,
        0x092C, 0x0926, 0x094D, 0x0926, 0x0932, 0x0020, 0x092C, 0x094B, 0x0932, 0x093E,
        0x092F, 0x091A, 0x0947, 0x0020, 0x0906, 0x0939, 0x0947, 0x003F]
     else
       [0x0CA8, 0x0CBF, 0x0CAE, 0x0CCD, 0x0CAE, 0x0020, 0x0CAD, 0x0CBE, 0x0CB5, 0x0CA8,
        0x0CC6, 0x0C97, 0x0CB3, 0x0CA8, 0x0CCD, 0x0CA8, 0x0CC1, 0x0020, 0x0CB9, 0x0C82,
        0x0C9A, 0x0CBF, 0x0C95, 0x0CCA, 0x0C82, 0x0CA1, 0x0CBF, 0x0CA6, 0x0CCD, 0x0CA6,
        0x0C95, 0x0CCD, 0x0C95, 0x0CBE, 0x0C97, 0x0CBF, 0x0020, 0x0CA7, 0x0CA8, 0x0CCD,
        0x0CAF, 0x0CB5, 0x0CBE, 0x0CA6, 0x0C97, 0x0CB3, 0x0CC1, 0x002E, 0x0020, 0x0CA8,
        0x0CBE, 0x0CA8, 0x0CC1, 0x0020, 0x0C95, 0x0CC7, 0x0CB3, 0x0CB2, 0x0CC1, 0x0020,
        0x0CAE, 0x0CA4, 0x0CCD, 0x0CA4, 0x0CC1, 0x0020, 0x0CA8, 0x0CBF, 0x0CAE, 0x0CCD,
        0x0CAE, 0x0CA8, 0x0CCD, 0x0CA8, 0x0CC1, 0x0020, 0x0CAC, 0x0CC6, 0x0C82, 0x0CAC,
        0x0CB2, 0x0CBF, 0x0CB8, 0x0CB2, 0x0CC1, 0x0020, 0x0C87, 0x0CB2, 0x0CCD, 0x0CB2,
        0x0CBF, 0x0CA6, 0x0CCD, 0x0CA6, 0x0CC7, 0x0CA8, 0x0CC6, 0x0964, 0x0020, 0xD83D,
        0xDC99, 0x0020, 0x0CA8, 0x0CC0, 0x0CB5, 0x0CC1, 0x0020, 0x0CAF, 0x0CBE, 0x0CB5,
        0x0CC1, 0x0CA6, 0x0CB0, 0x0020, 0x0CAC, 0x0C97, 0x0CCD, 0x0C97, 0x0CC6, 0x0020,
        0x0CAE, 0x0CBE, 0x0CA4, 0x0CA8, 0x0CBE, 0x0CA1, 0x0CB2, 0x0CC1, 0x0020, 0x0CAC,
        0x0CAF, 0x0CB8, 0x0CC1, 0x0CA4, 0x0CCD, 0x0CA4, 0x0CC0, 0x0CB0, 0x0CBF, 0x003F])"

section \<open>Property lookup on object literals\<close>

text \<open>
  \<open>obj[key]\<close> on an object literal gives the own property when there is one. Otherwise the
  lookup continues in \<open>Object.prototype\<close>, whose members are functions (for \<open>__proto__\<close>
  the prototype object itself); a key found nowhere gives \<open>undefined\<close>.
\<close>

datatype jsvalue = Str jsstring | Undefined | ProtoMember jsstring

definition objectPrototypeKeys :: "jsstring list" where
  "objectPrototypeKeys =
     [ascii ''constructor'', ascii ''hasOwnProperty'', ascii ''isPrototypeOf'',
      ascii ''propertyIsEnumerable'', ascii ''toLocaleString'', ascii ''toString'',
      ascii ''valueOf'', ascii ''__proto__'', ascii ''__defineGetter__'',
      ascii ''__defineSetter__'', ascii ''__lookupGetter__'', ascii ''__lookupSetter__'']"

definition getProp :: "(jsstring \<times> jsstring) list \<Rightarrow> jsstring \<Rightarrow> jsvalue" where
  "getProp obj key =
     (case map_of obj key of
        Some v \<Rightarrow> Str v
      | None \<Rightarrow> if key \<in> set objectPrototypeKeys then ProtoMember key else Undefined)"

fun truthy :: "jsvalue \<Rightarrow> bool" where
  "truthy (Str s) = (s \<noteq> [])"
| "truthy Undefined = False"
| "truthy (ProtoMember k) = True"

section \<open>The component state and its environment\<close>

datatype Sender = user | bot

record Turn =
  "text" :: "jsstring option"
  sender :: Sender
  timestamp :: jsstring

text \<open>The five \<open>useState\<close> cells of \<open>MentalHealthChatbox\<close>; \<open>userMood\<close> starts as \<open>null\<close>.\<close>

record State =
  messages :: "Turn list"
  inputValue :: jsstring
  currentLanguage :: Language
  userMood :: "jsstring option"
  showMoodSelector :: bool

text \<open>
  What one handler call reads from outside the component: the two results of
  \<open>new Date().toLocaleTimeString()\<close> (the first for the user's message, the second for
  the reply), the result of \<open>Math.random()\<close>, and the text that string conversion gives
  for a member of \<open>Object.prototype\<close>.

  \<open>Math.random()\<close> returns a binary64 number \<open>r\<close> with \<open>0 \<le> r < 1\<close>. Such a number is
  \<open>m / 2 ^ e\<close> for a mantissa \<open>m < 2 ^ 53\<close> and an exponent \<open>e \<le> 1074\<close> with \<open>m < 2 ^ e\<close>,
  and every such pair is one of these numbers; the environment holds \<open>m\<close> and \<open>e\<close>.
\<close>

record Env =
  timeFirst :: jsstring
  timeSecond :: jsstring
  randomMantissa :: nat
  randomExponent :: nat
  protoText :: "jsstring \<Rightarrow> jsstring"


text \<open>String conversion inside a template literal.\<close>

fun toStr :: "Env \<Rightarrow> jsvalue \<Rightarrow> jsstring" where
  "toStr env (Str s) = s"
| "toStr env Undefined = ascii ''undefined''"
| "toStr env (ProtoMember k) = protoText env k"

definition initialState :: State where
  "initialState =
     \<lparr>messages = [], inputValue = [], currentLanguage = english, userMood = None,
      showMoodSelector = False\<rparr>"

text \<open>The effect with the empty dependency list (lines 108-116): it runs once, after mounting.\<close>

definition mountEffect :: "Env \<Rightarrow> State \<Rightarrow> State" where
  "mountEffect env s =
     s\<lparr>messages :=
         [\<lparr>text = Some (greeting (currentLanguage s)), sender = bot,
           timestamp = timeFirst env\<rparr>],
       showMoodSelector := True\<rparr>"

definition initialize :: "Env \<Rightarrow> State" where
  "initialize env = mountEffect env initialState"

section \<open>The handlers\<close>

definition emojiMap :: "(jsstring \<times> jsstring) list" where
  "emojiMap =
     [(ascii ''happy'', [0xD83D, 0xDE0A]),
      (ascii ''sad'', [0xD83D, 0xDE22]),
      (ascii ''anxious'', [0xD83D, 0xDE30]),
      (ascii ''angry'', [0xD83D, 0xDE20]),
      (ascii ''calm'', [0xD83D, 0xDE0C]),
      (ascii ''confused'', [0xD83D, 0xDE15])]"

definition getMoodEmoji :: "jsstring \<Rightarrow> jsvalue" where
  "getMoodEmoji mood =
     (let v = getProp emojiMap mood in if truthy v then v else Str [0xD83D, 0xDE10])"

definition generateMoodResponse :: "Env \<Rightarrow> Language \<Rightarrow> jsstring \<Rightarrow> Turn" where
  "generateMoodResponse env lang mood =
     (let responseText =
        (if mood = ascii ''sad'' then jsIndex (depression lang) 0
         else if mood = ascii ''anxious'' then jsIndex (anxiety lang) 0
         else if mood = ascii ''angry'' then jsIndex (stress lang) 0
         else if mood = ascii ''happy'' then Some (happyResponse lang)
         else if mood = ascii ''calm'' then Some (calmResponse lang)
         else Some (otherResponse lang))
      in \<lparr>text = responseText, sender = bot, timestamp = timeSecond env\<rparr>)"

definition handleMoodSelection :: "Env \<Rightarrow> State \<Rightarrow> jsstring \<Rightarrow> State" where
  "handleMoodSelection env s mood =
     (let moodMessage =
            \<lparr>text = Some (toStr env (getProp (moodLabels (currentLanguage s)) mood) @
                          ascii '' '' @ toStr env (getMoodEmoji mood)),
             sender = user, timestamp = timeFirst env\<rparr>;
          botResponse = generateMoodResponse env (currentLanguage s) mood
      in s\<lparr>userMood := Some mood, showMoodSelector := False,
           messages := messages s @ [moodMessage, botResponse]\<rparr>)"

text \<open>
  The product of two binary64 numbers is the exact product rounded to the nearest
  binary64 number, a tie going to the one with the even mantissa. The exact product of
  \<open>m / 2 ^ e\<close> and a whole number \<open>n\<close> is \<open>m * n / 2 ^ e\<close>; rounding keeps the 53 leading bits
  of the numerator. \<open>excessBits a\<close> is the number of bits of \<open>a\<close> beyond 53, and
  \<open>roundTiesToEven s a\<close> is the multiple of \<open>2 ^ s\<close> nearest to \<open>a\<close>.
\<close>

function excessBits :: "nat \<Rightarrow> nat" where
  "excessBits a = (if a < 2 ^ 53 then 0 else Suc (excessBits (a div 2)))"
  by pat_completeness auto
termination
  by (relation "measure (\<lambda>a. a)") auto

declare excessBits.simps [simp del]

definition roundTiesToEven :: "nat \<Rightarrow> nat \<Rightarrow> nat" where
  "roundTiesToEven s a =
     (let q = a div 2 ^ s; r = a mod 2 ^ s
      in if 2 * r < 2 ^ s then q * 2 ^ s
         else if 2 ^ s < 2 * r then (q + 1) * 2 ^ s
         else if even q then q * 2 ^ s
         else (q + 1) * 2 ^ s)"

definition roundBinary64 :: "nat \<Rightarrow> nat" where
  "roundBinary64 a = roundTiesToEven (excessBits a) a"

text \<open>\<open>Math.floor((m / 2 ^ e) * n)\<close>: the rounded numerator, divided by \<open>2 ^ e\<close> without
  remainder.\<close>

definition floorProduct :: "nat \<Rightarrow> nat \<Rightarrow> nat \<Rightarrow> int" where
  "floorProduct m e n = int (roundBinary64 (m * n) div 2 ^ e)"

text \<open>\<open>list[Math.floor(Math.random() * list.length)]\<close>\<close>

definition randomElement :: "Env \<Rightarrow> 'a list \<Rightarrow> 'a option" where
  "randomElement env list =
     jsIndex list (floorProduct (randomMantissa env) (randomExponent env) (length list))"

definition generateBotResponse :: "Env \<Rightarrow> Language \<Rightarrow> jsstring \<Rightarrow> Turn" where
  "generateBotResponse env lang userMessage =
     (let lowerMessage = toLowerCase userMessage;
          response =
            (if includes lowerMessage (ascii ''sad'') \<or>
                includes lowerMessage (ascii ''depressed'') \<or>
                includes lowerMessage (ascii ''down'') \<or>
                includes lowerMessage [0x0909, 0x0926, 0x093E, 0x0938] \<or>
                includes lowerMessage [0x0926, 0x0941, 0x0916, 0x0940] \<or>
                includes lowerMessage [0x0CA6, 0x0CC1, 0x0C83, 0x0C96]
             then randomElement env (depression lang)
             else if includes lowerMessage (ascii ''anxious'') \<or>
                includes lowerMessage (ascii ''worried'') \<or>
                includes lowerMessage (ascii ''panic'') \<or>
                includes lowerMessage [0x091A, 0x093F, 0x0902, 0x0924, 0x093F, 0x0924] \<or>
                includes lowerMessage
                  [0x091A, 0x093F, 0x0902, 0x0924, 0x093E, 0x0917, 0x094D, 0x0930, 0x0938,
                   0x094D, 0x0924] \<or>
                includes lowerMessage [0x0C86, 0x0CA4, 0x0C82, 0x0C95]
             then randomElement env (anxiety lang)
             else if includes lowerMessage (ascii ''stress'') \<or>
                includes lowerMessage (ascii ''overwhelmed'') \<or>
                includes lowerMessage (ascii ''pressure'') \<or>
                includes lowerMessage [0x0924, 0x0928, 0x093E, 0x0935] \<or>
                includes lowerMessage [0x0924, 0x0923, 0x093E, 0x0935] \<or>
                includes lowerMessage [0x0C92, 0x0CA4, 0x0CCD, 0x0CA4, 0x0CA1]
             then randomElement env (stress lang)
             else randomElement env (genericResponses lang))
      in \<lparr>text = response, sender = bot, timestamp = timeSecond env\<rparr>)"

definition handleSendMessage :: "Env \<Rightarrow> State \<Rightarrow> State" where
  "handleSendMessage env s =
     (if trim (inputValue s) = [] then s
      else
        let userMessage =
              \<lparr>text = Some (inputValue s), sender = user, timestamp = timeFirst env\<rparr>;
            botResponse = generateBotResponse env (currentLanguage s) (inputValue s)
        in s\<lparr>messages := messages s @ [userMessage, botResponse], inputValue := []\<rparr>)"

definition handleKeyPress :: "Env \<Rightarrow> State \<Rightarrow> jsstring \<Rightarrow> State" where
  "handleKeyPress env s key = (if key = ascii ''Enter'' then handleSendMessage env s else s)"

section \<open>The operations of the engine\<close>

text \<open>
  \<open>selectMood\<close> is \<open>handleMoodSelection\<close>. \<open>sendMessage\<close> is the \<open>onChange\<close> of the input
  field (line 284), which stores the text typed, followed by \<open>handleSendMessage\<close>.
  \<open>setLanguage\<close> is the \<open>onChange\<close> of the language selector (line 241).
\<close>

definition selectMood :: "Env \<Rightarrow> State \<Rightarrow> jsstring \<Rightarrow> State" where
  "selectMood env s mood = handleMoodSelection env s mood"

definition sendMessage :: "Env \<Rightarrow> State \<Rightarrow> jsstring \<Rightarrow> State" where
  "sendMessage env s rawText = handleSendMessage env (s\<lparr>inputValue := rawText\<rparr>)"

definition setLanguage :: "State \<Rightarrow> Language \<Rightarrow> State" where
  "setLanguage s language = s\<lparr>currentLanguage := language\<rparr>"

datatype Operation = SelectMood jsstring | SendMessage jsstring | SetLanguage Language

fun applyOperation :: "State \<Rightarrow> Env \<times> Operation \<Rightarrow> State" where
  "applyOperation s (env, SelectMood mood) = selectMood env s mood"
| "applyOperation s (env, SendMessage rawText) = sendMessage env s rawText"
| "applyOperation s (env, SetLanguage language) = setLanguage s language"

definition session :: "Env \<Rightarrow> (Env \<times> Operation) list \<Rightarrow> State" where
  "session env0 ops = foldl applyOperation (initialize env0) ops"

section \<open>The user interface\<close>

text \<open>
  The events the rendered component can receive (lines 233-292). The mood buttons exist
  only while \<open>showMoodSelector\<close> holds (line 251), one for each key of \<open>moodLabels\<close>
  (line 255); an event on a button that is not rendered cannot happen and leaves the
  state as it is.
\<close>

datatype Event =
    MoodButton jsstring
  | InputChange jsstring
  | SendButton
  | KeyPress jsstring
  | LanguageChange Language

fun dispatch :: "State \<Rightarrow> Env \<times> Event \<Rightarrow> State" where
  "dispatch s (env, MoodButton mood) =
     (if showMoodSelector s \<and> mood \<in> set (map fst (moodLabels (currentLanguage s)))
      then handleMoodSelection env s mood else s)"
| "dispatch s (env, InputChange v) = s\<lparr>inputValue := v\<rparr>"
| "dispatch s (env, SendButton) = handleSendMessage env s"
| "dispatch s (env, KeyPress key) = handleKeyPress env s key"
| "dispatch s (env, LanguageChange language) = s\<lparr>currentLanguage := language\<rparr>"

definition rendered :: "Env \<Rightarrow> (Env \<times> Event) list \<Rightarrow> State" where
  "rendered env0 events = foldl dispatch (initialize env0) events"

section \<open>The specification's vocabulary\<close>

text \<open>The closed set of mood labels.\<close>

definition spec_moodLabels :: "jsstring list" where
  "spec_moodLabels =
     [ascii ''happy'', ascii ''sad'', ascii ''anxious'', ascii ''angry'', ascii ''calm'',
      ascii ''confused'']"

text \<open>
  The Mood Response Rule: sad, anxious and angry take the first variant of the low-mood,
  anxious and stressed lists; happy, calm and confused have one fixed text each.
\<close>

definition spec_moodResponse :: "Language \<Rightarrow> (jsstring \<times> jsstring) list" where
  "spec_moodResponse L =
     [(ascii ''sad'', hd (depression L)),
      (ascii ''anxious'', hd (anxiety L)),
      (ascii ''angry'', hd (stress L)),
      (ascii ''happy'', happyResponse L),
      (ascii ''calm'', calmResponse L),
      (ascii ''confused'', otherResponse L)]"

text \<open>
  The classification of free text: three keyword groups, each the union over the
  languages, tried in the order low-mood, anxious, stressed against the lower-cased text;
  the first group with a keyword that is a substring wins, and no match is the generic
  fallback.
\<close>

datatype ResponseCategory = LowMood | Anxious | Stressed | GenericFallback

fun spec_keywords :: "ResponseCategory \<Rightarrow> jsstring list" where
  "spec_keywords LowMood =
     [ascii ''sad'', ascii ''depressed'', ascii ''down'',
      [0x0909, 0x0926, 0x093E, 0x0938], [0x0926, 0x0941, 0x0916, 0x0940],
      [0x0CA6, 0x0CC1, 0x0C83, 0x0C96]]"
| "spec_keywords Anxious =
     [ascii ''anxious'', ascii ''worried'', ascii ''panic'',
      [0x091A, 0x093F, 0x0902, 0x0924, 0x093F, 0x0924],
      [0x091A, 0x093F, 0x0902, 0x0924, 0x093E, 0x0917, 0x094D, 0x0930, 0x0938, 0x094D, 0x0924],
      [0x0C86, 0x0CA4, 0x0C82, 0x0C95]]"
| "spec_keywords Stressed =
     [ascii ''stress'', ascii ''overwhelmed'', ascii ''pressure'',
      [0x0924, 0x0928, 0x093E, 0x0935], [0x0924, 0x0923, 0x093E, 0x0935],
      [0x0C92, 0x0CA4, 0x0CCD, 0x0CA4, 0x0CA1]]"
| "spec_keywords GenericFallback = []"

definition spec_matches :: "ResponseCategory \<Rightarrow> jsstring \<Rightarrow> bool" where
  "spec_matches c t = list_ex (\<lambda>k. sublist k (toLowerCase t)) (spec_keywords c)"

definition spec_classify :: "jsstring \<Rightarrow> ResponseCategory" where
  "spec_classify t =
     (case find (\<lambda>c. spec_matches c t) [LowMood, Anxious, Stressed] of
        Some c \<Rightarrow> c
      | None \<Rightarrow> GenericFallback)"

fun spec_pool :: "Language \<Rightarrow> ResponseCategory \<Rightarrow> jsstring list" where
  "spec_pool L LowMood = depression L"
| "spec_pool L Anxious = anxiety L"
| "spec_pool L Stressed = stress L"
| "spec_pool L GenericFallback = genericResponses L"

text \<open>Two texts are equal up to ASCII case: same length, and unit by unit equal or the
  two cases of one letter A to Z.\<close>

definition sameLetter :: "nat \<Rightarrow> nat \<Rightarrow> bool" where
  "sameLetter a b =
     (a = b \<or> (0x41 \<le> a \<and> a \<le> 0x5A \<and> b = a + 0x20) \<or> (0x41 \<le> b \<and> b \<le> 0x5A \<and> a = b + 0x20))"

definition equalUpToAsciiCase :: "jsstring \<Rightarrow> jsstring \<Rightarrow> bool" where
  "equalUpToAsciiCase s t = list_all2 sameLetter s t"

fun isSelectMood :: "Env \<times> Operation \<Rightarrow> bool" where
  "isSelectMood (env, SelectMood mood) = True"
| "isSelectMood (env, SendMessage rawText) = False"
| "isSelectMood (env, SetLanguage language) = False"

section \<open>Sample inputs\<close>

text \<open>In \<open>sampleEnv\<close> the random number is \<open>1 / 2\<close>. In \<open>boundaryEnv\<close> it is
  \<open>6004799503160661 / 2 ^ 53\<close>, the binary64 number next below \<open>2 / 3\<close>.\<close>

definition sampleEnv :: Env where
  "sampleEnv =
     \<lparr>timeFirst = ascii ''10:15:00 AM'', timeSecond = ascii ''10:15:01 AM'',
      randomMantissa = 1, randomExponent = 1,
      protoText = (\<lambda>k. ascii ''function '' @ k @ ascii ''() { [native code] }'')\<rparr>"


section \<open>Facts about the tables and the string functions\<close>

lemma includes_iff_sublist: "includes s k = sublist k s"
  by (induction s) (simp_all add: sublist_Cons_right)

lemma jsIndex_first: "xs \<noteq> [] \<Longrightarrow> jsIndex xs 0 = Some (hd xs)"
  by (cases xs) (simp_all add: jsIndex_def)

lemma depression_nonempty: "depression L \<noteq> []"
  by (cases L) (simp_all add: depression_def)

lemma anxiety_nonempty: "anxiety L \<noteq> []"
  by (cases L) (simp_all add: anxiety_def)

lemma stress_nonempty: "stress L \<noteq> []"
  by (cases L) (simp_all add: stress_def)


lemma moodLabels_keys: "map fst (moodLabels L) = spec_moodLabels"
  by (cases L) (simp_all add: moodLabels_def spec_moodLabels_def)

lemma generateMoodResponse_table:
  assumes "mood \<in> set spec_moodLabels"
  shows "generateMoodResponse env L mood =
           \<lparr>text = map_of (spec_moodResponse L) mood, sender = bot,
            timestamp = timeSecond env\<rparr>"
  using assms
  by (auto simp: spec_moodLabels_def generateMoodResponse_def spec_moodResponse_def
      jsIndex_first depression_nonempty anxiety_nonempty stress_nonempty ascii_def)

lemma spec_moodResponse_defined:
  "mood \<in> set spec_moodLabels \<Longrightarrow> map_of (spec_moodResponse L) mood \<noteq> None"
  by (auto simp: spec_moodLabels_def spec_moodResponse_def ascii_def)

lemma handleMoodSelection_messages:
  "messages (handleMoodSelection env s mood) =
     messages s @
       [\<lparr>text = Some (toStr env (getProp (moodLabels (currentLanguage s)) mood) @
                      ascii '' '' @ toStr env (getMoodEmoji mood)),
         sender = user, timestamp = timeFirst env\<rparr>,
        generateMoodResponse env (currentLanguage s) mood]"
  by (simp add: handleMoodSelection_def Let_def)

lemma initialize_language: "currentLanguage (initialize env) = english"
  by (simp add: initialize_def mountEffect_def initialState_def)

lemma generateBotResponse_classify:
  "generateBotResponse env L t =
     \<lparr>text = randomElement env (spec_pool L (spec_classify t)), sender = bot,
      timestamp = timeSecond env\<rparr>"
  by (simp add: generateBotResponse_def spec_classify_def spec_matches_def
      includes_iff_sublist Let_def)

lemma sendMessage_messages:
  "trim rawText \<noteq> [] \<Longrightarrow>
   messages (sendMessage env s rawText) =
     messages s @
       [\<lparr>text = Some rawText, sender = user, timestamp = timeFirst env\<rparr>,
        generateBotResponse env (currentLanguage s) rawText]"
  by (simp add: sendMessage_def handleSendMessage_def Let_def)

lemma sendMessage_blank_messages:
  "trim rawText = [] \<Longrightarrow> messages (sendMessage env s rawText) = messages s"
  by (simp add: sendMessage_def handleSendMessage_def)

subsection \<open>Trimming does not change the classification\<close>

lemma trim_decomposition:
  "\<exists>a b. s = a @ trim s @ b \<and> (\<forall>c\<in>set a. isWhiteSpace c) \<and> (\<forall>c\<in>set b. isWhiteSpace c)"
proof -
  define a where "a = takeWhile isWhiteSpace s"
  define d where "d = dropWhile isWhiteSpace s"
  define b where "b = rev (takeWhile isWhiteSpace (rev d))"
  have "rev (dropWhile isWhiteSpace (rev d)) @ rev (takeWhile isWhiteSpace (rev d)) =
          rev (takeWhile isWhiteSpace (rev d) @ dropWhile isWhiteSpace (rev d))"
    by (simp only: rev_append)
  also have "\<dots> = rev (rev d)"
    by (simp only: takeWhile_dropWhile_id)
  finally have "d = trim s @ b"
    by (simp add: trim_def b_def d_def)
  moreover have "s = a @ d"
    by (simp add: a_def d_def)
  moreover have "\<forall>c\<in>set a. isWhiteSpace c"
    by (auto simp: a_def dest: set_takeWhileD)
  moreover have "\<forall>c\<in>set b. isWhiteSpace c"
    by (auto simp: b_def dest: set_takeWhileD)
  ultimately show ?thesis by blast
qed

lemma lowerUnit_whiteSpace: "isWhiteSpace c \<Longrightarrow> lowerUnit c = [c]"
  by (auto simp: isWhiteSpace_def lowerUnit_def)

lemma toLowerCase_whiteSpace: "\<forall>c\<in>set a. isWhiteSpace c \<Longrightarrow> toLowerCase a = a"
  by (induction a) (simp_all add: toLowerCase_def lowerUnit_whiteSpace)

lemma toLowerCase_append: "toLowerCase (a @ b) = toLowerCase a @ toLowerCase b"
  by (simp add: toLowerCase_def)

lemma sublist_skip_left:
  assumes "k \<noteq> []" "\<not> isWhiteSpace (hd k)" "\<forall>c\<in>set a. isWhiteSpace c"
  shows "sublist k (a @ m) = sublist k m"
  using assms(3)
proof (induction a)
  case Nil
  show ?case by simp
next
  case (Cons w a)
  have "\<not> prefix k (w # a @ m)"
  proof
    assume "prefix k (w # a @ m)"
    with assms(1) have "hd k = w" by (cases k) simp_all
    with Cons.prems assms(2) show False by simp
  qed
  with Cons show ?case by (simp add: sublist_Cons_right)
qed

lemma sublist_skip_right:
  assumes "k \<noteq> []" "\<not> isWhiteSpace (last k)" "\<forall>c\<in>set b. isWhiteSpace c"
  shows "sublist k (m @ b) = sublist k m"
proof -
  have "sublist (rev k) (rev b @ rev m) = sublist (rev k) (rev m)"
    using assms by (intro sublist_skip_left) (simp_all add: hd_rev)
  then have "sublist (rev k) (rev (m @ b)) = sublist (rev k) (rev m)" by simp
  then show ?thesis by (simp only: sublist_rev)
qed

lemma keyword_edges:
  "k \<in> set (spec_keywords c) \<Longrightarrow> k \<noteq> [] \<and> \<not> isWhiteSpace (hd k) \<and> \<not> isWhiteSpace (last k)"
  by (cases c) (auto simp: ascii_def isWhiteSpace_def)

lemma spec_matches_trim: "spec_matches c (trim s) = spec_matches c s"
proof -
  obtain a b where s: "s = a @ trim s @ b"
    and a: "\<forall>c\<in>set a. isWhiteSpace c" and b: "\<forall>c\<in>set b. isWhiteSpace c"
    using trim_decomposition by blast
  have low: "toLowerCase s = a @ toLowerCase (trim s) @ b"
    using a b by (subst s) (simp add: toLowerCase_append toLowerCase_whiteSpace)
  have "sublist k (toLowerCase s) = sublist k (toLowerCase (trim s))"
    if "k \<in> set (spec_keywords c)" for k
  proof -
    from keyword_edges [OF that]
    have k: "k \<noteq> []" "\<not> isWhiteSpace (hd k)" "\<not> isWhiteSpace (last k)" by simp_all
    have "sublist k (a @ toLowerCase (trim s) @ b) = sublist k (toLowerCase (trim s) @ b)"
      using k(1,2) a by (rule sublist_skip_left)
    also have "\<dots> = sublist k (toLowerCase (trim s))"
      using k(1,3) b by (rule sublist_skip_right)
    finally show ?thesis by (simp only: low)
  qed
  then show ?thesis by (auto simp: spec_matches_def list_ex_iff)
qed

lemma spec_classify_trim: "spec_classify (trim s) = spec_classify s"
  by (simp add: spec_classify_def spec_matches_trim)

lemma trim_sample: "trim (ascii ''  hello '') = ascii ''hello''"
  by (simp add: trim_def isWhiteSpace_def ascii_def)

subsection \<open>Rounding to binary64\<close>

lemma excessBits_small: "a < 2 ^ 53 \<Longrightarrow> excessBits a = 0"
  by (subst excessBits.simps) simp

lemma excessBits_large: "\<not> a < 2 ^ 53 \<Longrightarrow> excessBits a = Suc (excessBits (a div 2))"
  by (subst excessBits.simps) simp

lemma excessBits_upper: "a < 2 ^ (53 + excessBits a)"
proof (induction a rule: excessBits.induct)
  case (1 a)
  show ?case
  proof (cases "a < 2 ^ 53")
    case True
    then show ?thesis by (simp add: excessBits_small)
  next
    case False
    then have eq: "excessBits a = Suc (excessBits (a div 2))" by (rule excessBits_large)
    from 1 False have "a div 2 < 2 ^ (53 + excessBits (a div 2))" by simp
    then have "a < 2 * 2 ^ (53 + excessBits (a div 2))" by linarith
    then show ?thesis by (simp only: eq add_Suc_right power_Suc)
  qed
qed





lemma roundBinary64_exact: "a < 2 ^ 53 \<Longrightarrow> roundBinary64 a = a"
  by (simp add: roundBinary64_def excessBits_small roundTiesToEven_def)










subsection \<open>The random draw and the priority of the groups\<close>







subsection \<open>Sample messages\<close>










lemma hello_nonblank: "trim (ascii ''hello'') \<noteq> []"
  by (simp add: trim_def isWhiteSpace_def ascii_def)




lemma blank_sample: "trim (ascii ''   '') = []"
  by (simp add: trim_def isWhiteSpace_def ascii_def)

subsection \<open>Letter case\<close>

lemma sameLetter_lowerUnit: "sameLetter a b \<Longrightarrow> lowerUnit a = lowerUnit b"
  by (auto simp: sameLetter_def lowerUnit_def)

lemma equalUpToAsciiCase_toLowerCase:
  "equalUpToAsciiCase s t \<Longrightarrow> toLowerCase s = toLowerCase t"
  unfolding equalUpToAsciiCase_def
  by (induction s t rule: list_all2_induct)
     (simp_all add: toLowerCase_def sameLetter_lowerUnit)

lemma lower_SAD: "toLowerCase (ascii ''SAD'') = ascii ''sad''"
  by (simp add: toLowerCase_def lowerUnit_def ascii_def)

lemma sad_low: "spec_classify (ascii ''sad'') = LowMood"
  by (simp add: spec_classify_def spec_matches_def includes_iff_sublist [symmetric]
      toLowerCase_def lowerUnit_def ascii_def)

subsection \<open>Sessions\<close>

lemma session_append:
  "session env0 (ops @ ops') = foldl applyOperation (session env0 ops) ops'"
  by (simp add: session_def)

lemma showMoodSelector_applyOperation:
  "showMoodSelector (applyOperation s op) = (showMoodSelector s \<and> \<not> isSelectMood op)"
  by (cases op rule: isSelectMood.cases)
     (simp_all add: selectMood_def handleMoodSelection_def sendMessage_def
        handleSendMessage_def setLanguage_def Let_def)

lemma showMoodSelector_foldl:
  "showMoodSelector (foldl applyOperation s ops) =
     (showMoodSelector s \<and> \<not> list_ex isSelectMood ops)"
  by (induction ops arbitrary: s) (auto simp: showMoodSelector_applyOperation)

lemma showMoodSelector_initialize: "showMoodSelector (initialize env0)"
  by (simp add: initialize_def mountEffect_def)

subsection \<open>The transcript\<close>

lemma initialize_messages:
  "messages (initialize env0) =
     [\<lparr>text = Some (greeting english), sender = bot, timestamp = timeFirst env0\<rparr>]"
  by (simp add: initialize_def mountEffect_def initialState_def)

lemma generateMoodResponse_sender: "sender (generateMoodResponse env L mood) = bot"
  by (simp add: generateMoodResponse_def Let_def)

lemma generateBotResponse_sender: "sender (generateBotResponse env L t) = bot"
  by (simp add: generateBotResponse_classify)

lemma selectMood_pair:
  "\<exists>u b. messages (selectMood env s mood) = messages s @ [u, b] \<and> sender u = user \<and> sender b = bot"
  by (simp add: selectMood_def handleMoodSelection_messages generateMoodResponse_sender)

lemma sendMessage_pair:
  "trim rawText \<noteq> [] \<Longrightarrow>
   \<exists>u b. messages (sendMessage env s rawText) = messages s @ [u, b]
     \<and> sender u = user \<and> sender b = bot"
  by (simp add: sendMessage_messages generateBotResponse_sender)

lemma setLanguage_messages: "messages (setLanguage s language) = messages s"
  by (simp add: setLanguage_def)

lemma applyOperation_appends:
  "\<exists>new. messages (applyOperation s op) = messages s @ new
     \<and> (new = [] \<or> (\<exists>u b. new = [u, b] \<and> sender u = user \<and> sender b = bot))"
proof (cases op rule: isSelectMood.cases)
  case (1 env mood)
  then show ?thesis using selectMood_pair [of env s mood] by auto
next
  case (2 env rawText)
  show ?thesis
  proof (cases "trim rawText = []")
    case True
    with 2 show ?thesis by (simp add: sendMessage_blank_messages)
  next
    case False
    with 2 show ?thesis using sendMessage_pair [of rawText env s] by auto
  qed
next
  case (3 env language)
  then show ?thesis by (simp add: setLanguage_messages)
qed

lemma applyOperation_shape:
  assumes "odd (length (messages s))" "sender (last (messages s)) = bot"
  shows "odd (length (messages (applyOperation s op)))
         \<and> sender (last (messages (applyOperation s op))) = bot"
  using applyOperation_appends [of s op] assms by auto

lemma foldl_shape:
  "odd (length (messages s)) \<Longrightarrow> sender (last (messages s)) = bot \<Longrightarrow>
   odd (length (messages (foldl applyOperation s ops)))
   \<and> sender (last (messages (foldl applyOperation s ops))) = bot"
  by (induction ops arbitrary: s) (simp_all add: applyOperation_shape)

lemma foldl_prefix:
  "prefix (messages s) (messages (foldl applyOperation s ops))"
proof (induction ops arbitrary: s)
  case Nil
  show ?case by simp
next
  case (Cons op ops)
  obtain new where "messages (applyOperation s op) = messages s @ new"
    using applyOperation_appends [of s op] by blast
  then have "prefix (messages s) (messages (applyOperation s op))" by simp
  also have "prefix (messages (applyOperation s op))
      (messages (foldl applyOperation (applyOperation s op) ops))"
    by (rule Cons.IH)
  finally show ?case by simp
qed

subsection \<open>The recorded mood\<close>

lemma dispatch_after_selection:
  "\<not> showMoodSelector s \<Longrightarrow>
   userMood (dispatch s ev) = userMood s \<and> \<not> showMoodSelector (dispatch s ev)"
proof (cases ev)
  case (Pair env e)
  assume "\<not> showMoodSelector s"
  with Pair show ?thesis
    by (cases e) (simp_all add: handleSendMessage_def handleKeyPress_def Let_def)
qed

lemma foldl_dispatch_after_selection:
  "\<not> showMoodSelector s \<Longrightarrow> userMood (foldl dispatch s events) = userMood s"
  by (induction events arbitrary: s) (simp_all add: dispatch_after_selection)

lemma dispatch_prompt_invariant:
  assumes "userMood s \<noteq> None \<longrightarrow> \<not> showMoodSelector s"
  shows "userMood (dispatch s ev) \<noteq> None \<longrightarrow> \<not> showMoodSelector (dispatch s ev)"
proof (cases ev)
  case (Pair env e)
  with assms show ?thesis
    by (cases e)
       (auto simp: handleMoodSelection_def handleSendMessage_def handleKeyPress_def Let_def)
qed

lemma foldl_dispatch_prompt_invariant:
  "userMood s \<noteq> None \<longrightarrow> \<not> showMoodSelector s \<Longrightarrow>
   userMood (foldl dispatch s events) \<noteq> None \<longrightarrow> \<not> showMoodSelector (foldl dispatch s events)"
proof (induction events arbitrary: s)
  case Nil
  then show ?case by simp
next
  case (Cons ev events)
  from Cons.prems have "userMood (dispatch s ev) \<noteq> None \<longrightarrow> \<not> showMoodSelector (dispatch s ev)"
    by (rule dispatch_prompt_invariant)
  then show ?case using Cons.IH [of "dispatch s ev"] by simp
qed

lemma rendered_prompt_invariant:
  "userMood (rendered env0 events) \<noteq> None \<longrightarrow> \<not> showMoodSelector (rendered env0 events)"
  unfolding rendered_def
  by (rule foldl_dispatch_prompt_invariant)
     (simp add: initialize_def mountEffect_def initialState_def)

lemma rendered_append:
  "rendered env0 (events @ events') = foldl dispatch (rendered env0 events) events'"
  by (simp add: rendered_def)

lemma sad_is_label: "ascii ''sad'' \<in> set (map fst (moodLabels english))"
  by (simp add: moodLabels_keys spec_moodLabels_def)

lemma rendered_sad:
  "userMood (rendered sampleEnv [(sampleEnv, MoodButton (ascii ''sad''))]) = Some (ascii ''sad'')"
  using sad_is_label
  by (simp add: rendered_def initialize_language showMoodSelector_initialize
      handleMoodSelection_def Let_def)

subsection \<open>A mood label outside the closed set\<close>

lemma unknown_label:
  "mood \<notin> set spec_moodLabels \<Longrightarrow> map_of (moodLabels L) mood = None"
proof -
  have "set (map fst (moodLabels L)) = set spec_moodLabels"
    by (simp only: moodLabels_keys)
  then have "fst ` set (moodLabels L) = set spec_moodLabels"
    by (simp only: set_map)
  then show "mood \<notin> set spec_moodLabels \<Longrightarrow> map_of (moodLabels L) mood = None"
    by (simp add: map_of_eq_None_iff)
qed

lemma unknown_emoji:
  "mood \<notin> set spec_moodLabels \<Longrightarrow> map_of emojiMap mood = None"
  by (simp add: map_of_eq_None_iff emojiMap_def spec_moodLabels_def)

lemma unknown_response:
  "mood \<notin> set spec_moodLabels \<Longrightarrow>
   generateMoodResponse env L mood =
     \<lparr>text = Some (otherResponse L), sender = bot, timestamp = timeSecond env\<rparr>"
  by (simp add: generateMoodResponse_def spec_moodLabels_def Let_def)

lemma bored_unknown: "ascii ''bored'' \<notin> set spec_moodLabels"
  by (simp add: spec_moodLabels_def ascii_def)

lemma bored_not_inherited: "ascii ''bored'' \<notin> set objectPrototypeKeys"
  by (simp add: objectPrototypeKeys_def ascii_def)

section \<open>The claims\<close>

text \<open>
  C1. For every language and every mood label of the closed set, \<open>selectMood\<close> appends
  exactly two turns, the user's and then the bot's, and the bot's text is the entry of the
  Mood Response Rule for that mood and language: the first variant of the low-mood,
  anxiety or stress list for sad, anxious or angry, and the fixed text for happy, calm or
  confused. The text depends on the mood and the language only, so a repeated call with
  the same mood and language gives the same text.
\<close>

theorem selectMood_response:
  assumes "mood \<in> set spec_moodLabels"
  shows "(\<exists>u b. messages (selectMood env s mood) = messages s @ [u, b]
            \<and> sender u = user \<and> sender b = bot
            \<and> text b = map_of (spec_moodResponse (currentLanguage s)) mood
            \<and> text b \<noteq> None)
         \<and> (currentLanguage s' = currentLanguage s \<longrightarrow>
              text (last (messages (selectMood env' s' mood))) =
              text (last (messages (selectMood env s mood))))"
proof -
  have "text (generateMoodResponse env L mood) = map_of (spec_moodResponse L) mood" for env L
    using assms by (simp add: generateMoodResponse_table)
  moreover have "sender (generateMoodResponse env L mood) = bot" for env L
    by (simp add: generateMoodResponse_def Let_def)
  moreover have "map_of (spec_moodResponse (currentLanguage s)) mood \<noteq> None"
    using assms by (rule spec_moodResponse_defined)
  ultimately show ?thesis
    by (simp add: selectMood_def handleMoodSelection_messages)
qed

theorem selectMood_response_witness:
  "ascii ''sad'' \<in> set spec_moodLabels
   \<and> text (last (messages (selectMood sampleEnv (initialize sampleEnv) (ascii ''sad'')))) =
       Some (hd (depression english))
   \<and> length (messages (selectMood sampleEnv (initialize sampleEnv) (ascii ''sad''))) =
       length (messages (initialize sampleEnv)) + 2"
proof -
  have h: "ascii ''sad'' \<in> set spec_moodLabels"
    by (simp add: spec_moodLabels_def)
  have T: "map_of (spec_moodResponse english) (ascii ''sad'') = Some (hd (depression english))"
    by (simp add: spec_moodResponse_def)
  from selectMood_response [OF h, of sampleEnv "initialize sampleEnv"]
  obtain u b where
    "messages (selectMood sampleEnv (initialize sampleEnv) (ascii ''sad'')) =
       messages (initialize sampleEnv) @ [u, b]"
    "text b = map_of (spec_moodResponse (currentLanguage (initialize sampleEnv))) (ascii ''sad'')"
    by blast
  with h T show ?thesis by (simp add: initialize_language)
qed



text \<open>
  C3 as stated does not hold of \<open>selectMood\<close>: the handler stores the mood without looking
  at the one already recorded, so a second call with another mood replaces it.
\<close>

theorem recordedMood_counterexample:
  "userMood (selectMood sampleEnv (selectMood sampleEnv (initialize sampleEnv) (ascii ''sad''))
      (ascii ''happy'')) = Some (ascii ''happy'')
   \<and> userMood (selectMood sampleEnv (initialize sampleEnv) (ascii ''sad'')) = Some (ascii ''sad'')
   \<and> ascii ''happy'' \<noteq> ascii ''sad''"
  by (simp add: selectMood_def handleMoodSelection_def Let_def) (simp add: ascii_def)

text \<open>
  C3, amended. Every \<open>selectMood\<close> call sets the recorded mood to the mood passed, and no
  other operation changes it. The mood buttons, the only callers of the handler, are
  rendered only while the mood prompt is pending; so in a session driven through the
  rendered component the recorded mood, once set, keeps its value.
\<close>

theorem recordedMood_set_once_in_interface:
  "userMood (selectMood env s mood) = Some mood
   \<and> userMood (sendMessage env s rawText) = userMood s
   \<and> userMood (setLanguage s language) = userMood s
   \<and> (userMood (rendered env0 events) = Some m \<longrightarrow>
        userMood (rendered env0 (events @ events')) = Some m)"
proof -
  have "userMood (rendered env0 (events @ events')) = Some m"
    if "userMood (rendered env0 events) = Some m"
  proof -
    from that rendered_prompt_invariant [of env0 events]
    have "\<not> showMoodSelector (rendered env0 events)" by simp
    then show ?thesis
      by (simp add: rendered_append foldl_dispatch_after_selection that)
  qed
  then show ?thesis
    by (simp add: selectMood_def handleMoodSelection_def sendMessage_def
        handleSendMessage_def setLanguage_def Let_def)
qed

theorem recordedMood_set_once_in_interface_witness:
  "userMood (rendered sampleEnv [(sampleEnv, MoodButton (ascii ''sad''))]) = Some (ascii ''sad'')
   \<and> userMood (rendered sampleEnv
        ([(sampleEnv, MoodButton (ascii ''sad''))] @
         [(sampleEnv, MoodButton (ascii ''happy'')), (sampleEnv, LanguageChange hindi)])) =
       Some (ascii ''sad'')"
  using recordedMood_set_once_in_interface
    [of sampleEnv "initialize sampleEnv" "[]" "[]" english sampleEnv
      "[(sampleEnv, MoodButton (ascii ''sad''))]" "ascii ''sad''"
      "[(sampleEnv, MoodButton (ascii ''happy'')), (sampleEnv, LanguageChange hindi)]"]
    rendered_sad
  by blast

text \<open>
  C4 as stated does not hold: for the label \<open>bored\<close>, outside the closed set, \<open>selectMood\<close>
  returns a state with two new turns, built from the default glyph and the text of the
  final \<open>else\<close> branch.
\<close>

theorem selectMood_unknown_label_counterexample:
  "ascii ''bored'' \<notin> set spec_moodLabels
   \<and> selectMood sampleEnv (initialize sampleEnv) (ascii ''bored'') =
     \<lparr>messages =
        [\<lparr>text = Some (greeting english), sender = bot, timestamp = ascii ''10:15:00 AM''\<rparr>,
         \<lparr>text = Some (ascii ''undefined '' @ [0xD83D, 0xDE10]), sender = user,
          timestamp = ascii ''10:15:00 AM''\<rparr>,
         \<lparr>text = Some (otherResponse english), sender = bot,
          timestamp = ascii ''10:15:01 AM''\<rparr>],
      inputValue = [], currentLanguage = english, userMood = Some (ascii ''bored''),
      showMoodSelector = False\<rparr>"
proof -
  have "getProp (moodLabels english) (ascii ''bored'') = Undefined"
    by (simp add: getProp_def unknown_label bored_unknown bored_not_inherited)
  moreover have "getMoodEmoji (ascii ''bored'') = Str [0xD83D, 0xDE10]"
    by (simp add: getMoodEmoji_def getProp_def unknown_emoji bored_unknown bored_not_inherited)
  moreover have "generateMoodResponse sampleEnv english (ascii ''bored'') =
     \<lparr>text = Some (otherResponse english), sender = bot, timestamp = timeSecond sampleEnv\<rparr>"
    using bored_unknown by (rule unknown_response)
  ultimately show ?thesis
    using bored_unknown
    by (simp add: selectMood_def handleMoodSelection_def initialize_def mountEffect_def
        initialState_def sampleEnv_def Let_def) (simp add: ascii_def)
qed

text \<open>
  C4, amended. For a mood label outside the closed set \<open>selectMood\<close> does not fail. It
  records the label, clears the mood prompt and appends two turns: the user's, whose text
  is \<open>undefined\<close>, a space and the default glyph (or twice the string form of the member of
  \<open>Object.prototype\<close> that the label names), and the bot's, whose text is the fixed
  acknowledgement of the current language.
\<close>

theorem selectMood_unknown_label:
  assumes "mood \<notin> set spec_moodLabels"
  shows "selectMood env s mood =
     s\<lparr>userMood := Some mood, showMoodSelector := False,
       messages := messages s @
         [\<lparr>text = Some (if mood \<in> set objectPrototypeKeys
                         then protoText env mood @ ascii '' '' @ protoText env mood
                         else ascii ''undefined'' @ ascii '' '' @ [0xD83D, 0xDE10]),
           sender = user, timestamp = timeFirst env\<rparr>,
          \<lparr>text = Some (otherResponse (currentLanguage s)), sender = bot,
           timestamp = timeSecond env\<rparr>]\<rparr>"
  using assms
  by (simp add: selectMood_def handleMoodSelection_def getProp_def getMoodEmoji_def
      unknown_label unknown_emoji unknown_response Let_def)

theorem selectMood_unknown_label_witness:
  "ascii ''bored'' \<notin> set spec_moodLabels
   \<and> messages (selectMood sampleEnv (initialize sampleEnv) (ascii ''bored'')) =
       messages (initialize sampleEnv) @
         [\<lparr>text = Some (ascii ''undefined'' @ ascii '' '' @ [0xD83D, 0xDE10]),
           sender = user, timestamp = timeFirst sampleEnv\<rparr>,
          \<lparr>text = Some (otherResponse english), sender = bot,
           timestamp = timeSecond sampleEnv\<rparr>]"
  using selectMood_unknown_label [OF bored_unknown, of sampleEnv "initialize sampleEnv"]
    bored_unknown bored_not_inherited
  by (simp add: initialize_language)

text \<open>
  C5. When the trimmed input is empty, \<open>sendMessage\<close> adds no turn and leaves the
  transcript, the language, the recorded mood and the mood prompt as they were; the handler
  itself returns the state it was given.
\<close>

theorem sendMessage_blank_noop:
  assumes "trim rawText = []"
  shows "messages (sendMessage env s rawText) = messages s
         \<and> currentLanguage (sendMessage env s rawText) = currentLanguage s
         \<and> userMood (sendMessage env s rawText) = userMood s
         \<and> showMoodSelector (sendMessage env s rawText) = showMoodSelector s
         \<and> (inputValue s = rawText \<longrightarrow> handleSendMessage env s = s)"
  using assms by (auto simp: sendMessage_def handleSendMessage_def)

theorem sendMessage_blank_noop_witness:
  "trim (ascii ''   '') = []
   \<and> messages (sendMessage sampleEnv (initialize sampleEnv) (ascii ''   '')) =
       messages (initialize sampleEnv)
   \<and> userMood (sendMessage sampleEnv (initialize sampleEnv) (ascii ''   '')) =
       userMood (initialize sampleEnv)
   \<and> showMoodSelector (sendMessage sampleEnv (initialize sampleEnv) (ascii ''   '')) =
       showMoodSelector (initialize sampleEnv)"
proof -
  have h: "trim (ascii ''   '') = []"
    by (simp add: trim_def isWhiteSpace_def ascii_def)
  from sendMessage_blank_noop [OF h, of sampleEnv "initialize sampleEnv"] h
  show ?thesis by simp
qed

text \<open>
  C6. The mood prompt is pending after \<open>initialize\<close>; \<open>selectMood\<close> clears it;
  \<open>sendMessage\<close> and \<open>setLanguage\<close> leave it as it is. Hence after any sequence of
  operations it is pending exactly when no \<open>selectMood\<close> has run, and once cleared it
  stays cleared.
\<close>

theorem moodPrompt_lifecycle:
  "showMoodSelector (initialize env0)
   \<and> \<not> showMoodSelector (selectMood env s mood)
   \<and> showMoodSelector (sendMessage env s rawText) = showMoodSelector s
   \<and> showMoodSelector (setLanguage s language) = showMoodSelector s
   \<and> showMoodSelector (session env0 ops) = (\<not> list_ex isSelectMood ops)
   \<and> (\<not> showMoodSelector (session env0 ops) \<longrightarrow>
        \<not> showMoodSelector (session env0 (ops @ ops')))"
proof -
  have "showMoodSelector (session env0 ops) = (\<not> list_ex isSelectMood ops)" for ops
    by (simp add: session_def showMoodSelector_foldl showMoodSelector_initialize)
  then show ?thesis
    by (simp add: showMoodSelector_initialize selectMood_def handleMoodSelection_def
        sendMessage_def handleSendMessage_def setLanguage_def Let_def)
qed

theorem moodPrompt_lifecycle_witness:
  "showMoodSelector (session sampleEnv [(sampleEnv, SendMessage (ascii ''hello''))])
   \<and> \<not> showMoodSelector (session sampleEnv
          [(sampleEnv, SendMessage (ascii ''hello'')), (sampleEnv, SelectMood (ascii ''calm''))])
   \<and> \<not> showMoodSelector (session sampleEnv
          ([(sampleEnv, SendMessage (ascii ''hello'')), (sampleEnv, SelectMood (ascii ''calm''))]
           @ [(sampleEnv, SetLanguage hindi), (sampleEnv, SendMessage (ascii ''hello''))]))"
proof -
  note a = moodPrompt_lifecycle [of sampleEnv sampleEnv "initialize sampleEnv" "[]" "[]" english
      "[(sampleEnv, SendMessage (ascii ''hello''))]" "[]"]
  note b = moodPrompt_lifecycle [of sampleEnv sampleEnv "initialize sampleEnv" "[]" "[]" english
      "[(sampleEnv, SendMessage (ascii ''hello'')), (sampleEnv, SelectMood (ascii ''calm''))]"
      "[(sampleEnv, SetLanguage hindi), (sampleEnv, SendMessage (ascii ''hello''))]"]
  have 1: "showMoodSelector (session sampleEnv [(sampleEnv, SendMessage (ascii ''hello''))])"
    using a by simp
  have 2: "\<not> showMoodSelector (session sampleEnv
          [(sampleEnv, SendMessage (ascii ''hello'')), (sampleEnv, SelectMood (ascii ''calm''))])"
    using b by simp
  from b 2 have 3: "\<not> showMoodSelector (session sampleEnv
          ([(sampleEnv, SendMessage (ascii ''hello'')), (sampleEnv, SelectMood (ascii ''calm''))]
           @ [(sampleEnv, SetLanguage hindi), (sampleEnv, SendMessage (ascii ''hello''))]))"
    by blast
  from 1 2 3 show ?thesis by blast
qed

text \<open>
  C7. \<open>setLanguage\<close> stores the language and nothing else: the transcript, the recorded
  mood, the mood prompt and the pending input are unchanged. It is a total function, so
  it succeeds for each of the four languages.
\<close>

theorem setLanguage_frame:
  "currentLanguage (setLanguage s language) = language
   \<and> messages (setLanguage s language) = messages s
   \<and> userMood (setLanguage s language) = userMood s
   \<and> showMoodSelector (setLanguage s language) = showMoodSelector s
   \<and> inputValue (setLanguage s language) = inputValue s"
  by (simp add: setLanguage_def)

text \<open>
  C8. For input that is not blank, the user's turn carries the text as typed, with its
  leading and trailing white space. The reply is computed from that same text, and it is
  the reply the trimmed text would get, since no keyword begins or ends with white space.
\<close>

theorem sendMessage_verbatim:
  assumes "trim rawText \<noteq> []"
  shows "messages (sendMessage env s rawText) =
           messages s @
             [\<lparr>text = Some rawText, sender = user, timestamp = timeFirst env\<rparr>,
              generateBotResponse env (currentLanguage s) rawText]
         \<and> generateBotResponse env (currentLanguage s) rawText =
             generateBotResponse env (currentLanguage s) (trim rawText)"
  using assms
  by (simp add: sendMessage_messages generateBotResponse_classify spec_classify_trim)

theorem sendMessage_verbatim_witness:
  "trim (ascii ''  hello '') \<noteq> []
   \<and> trim (ascii ''  hello '') \<noteq> ascii ''  hello ''
   \<and> text (messages (sendMessage sampleEnv (initialize sampleEnv) (ascii ''  hello ''))
            ! length (messages (initialize sampleEnv))) = Some (ascii ''  hello '')"
proof -
  have h: "trim (ascii ''  hello '') \<noteq> []"
    by (simp add: trim_sample) (simp add: ascii_def)
  have d: "trim (ascii ''  hello '') \<noteq> ascii ''  hello ''"
    by (simp add: trim_sample) (simp add: ascii_def)
  from sendMessage_verbatim [OF h, of sampleEnv "initialize sampleEnv"] h d
  show ?thesis by simp
qed

text \<open>
  C9. Two texts that are equal up to ASCII case fall into the same category and get the
  same reply from \<open>generateBotResponse\<close>.
\<close>

theorem classification_ignores_case:
  assumes "equalUpToAsciiCase s t"
  shows "spec_classify s = spec_classify t
         \<and> generateBotResponse env L s = generateBotResponse env L t"
proof -
  have "toLowerCase s = toLowerCase t"
    using assms by (rule equalUpToAsciiCase_toLowerCase)
  then have "spec_classify s = spec_classify t"
    by (simp add: spec_classify_def spec_matches_def)
  then show ?thesis by (simp add: generateBotResponse_classify)
qed

theorem classification_ignores_case_witness:
  "equalUpToAsciiCase (ascii ''SAD'') (ascii ''sad'')
   \<and> equalUpToAsciiCase (ascii ''Sad'') (ascii ''sad'')
   \<and> spec_classify (ascii ''SAD'') = LowMood
   \<and> spec_classify (ascii ''Sad'') = LowMood
   \<and> spec_classify (ascii ''sad'') = LowMood"
proof -
  have h1: "equalUpToAsciiCase (ascii ''SAD'') (ascii ''sad'')"
    by (simp add: equalUpToAsciiCase_def sameLetter_def ascii_def)
  have h2: "equalUpToAsciiCase (ascii ''Sad'') (ascii ''sad'')"
    by (simp add: equalUpToAsciiCase_def sameLetter_def ascii_def)
  from classification_ignores_case [OF h1] classification_ignores_case [OF h2] sad_low h1 h2
  show ?thesis by simp
qed

text \<open>
  C10. \<open>initialize\<close> gives a transcript of one bot turn, the greeting. \<open>setLanguage\<close> and
  \<open>sendMessage\<close> on blank input add nothing; \<open>selectMood\<close> and \<open>sendMessage\<close> on other
  input add a user turn and then a bot turn. The earlier transcript stays a prefix of the
  later one, its length is odd after every sequence of operations, and its last turn is
  the bot's.
\<close>

theorem transcript_append_only:
  "messages (initialize env0) =
     [\<lparr>text = Some (greeting english), sender = bot, timestamp = timeFirst env0\<rparr>]
   \<and> messages (setLanguage s language) = messages s
   \<and> (trim rawText = [] \<longrightarrow> messages (sendMessage env s rawText) = messages s)
   \<and> (trim rawText \<noteq> [] \<longrightarrow>
        (\<exists>u b. messages (sendMessage env s rawText) = messages s @ [u, b]
           \<and> sender u = user \<and> sender b = bot))
   \<and> (\<exists>u b. messages (selectMood env s mood) = messages s @ [u, b]
         \<and> sender u = user \<and> sender b = bot)
   \<and> prefix (messages (session env0 ops)) (messages (session env0 (ops @ ops')))
   \<and> odd (length (messages (session env0 ops)))
   \<and> sender (last (messages (session env0 ops))) = bot"
proof -
  have "odd (length (messages (session env0 ops)))
        \<and> sender (last (messages (session env0 ops))) = bot"
    unfolding session_def by (rule foldl_shape) (simp_all add: initialize_messages)
  moreover have "prefix (messages (session env0 ops)) (messages (session env0 (ops @ ops')))"
    by (simp only: session_append foldl_prefix)
  ultimately show ?thesis
    using selectMood_pair [of env s mood] sendMessage_pair [of rawText env s]
    by (simp add: initialize_messages setLanguage_messages sendMessage_blank_messages)
qed

theorem transcript_append_only_witness:
  "trim (ascii ''   '') = []
   \<and> messages (sendMessage sampleEnv (initialize sampleEnv) (ascii ''   '')) =
       messages (initialize sampleEnv)
   \<and> trim (ascii ''hello'') \<noteq> []
   \<and> length (messages (sendMessage sampleEnv (initialize sampleEnv) (ascii ''hello''))) = 3
   \<and> odd (length (messages (session sampleEnv
        [(sampleEnv, SelectMood (ascii ''sad'')), (sampleEnv, SendMessage (ascii ''   '')),
         (sampleEnv, SetLanguage hindi), (sampleEnv, SendMessage (ascii ''hello''))])))"
proof -
  note a = transcript_append_only [of sampleEnv "initialize sampleEnv" english "ascii ''   ''"
      sampleEnv "[]" "[]" "[]"]
  note b = transcript_append_only [of sampleEnv "initialize sampleEnv" english "ascii ''hello''"
      sampleEnv "[]"
      "[(sampleEnv, SelectMood (ascii ''sad'')), (sampleEnv, SendMessage (ascii ''   '')),
         (sampleEnv, SetLanguage hindi), (sampleEnv, SendMessage (ascii ''hello''))]" "[]"]
  from a blank_sample
  have 1: "messages (sendMessage sampleEnv (initialize sampleEnv) (ascii ''   '')) =
       messages (initialize sampleEnv)" by blast
  from b hello_nonblank obtain u v where
    "messages (sendMessage sampleEnv (initialize sampleEnv) (ascii ''hello'')) =
       messages (initialize sampleEnv) @ [u, v]" by blast
  then have 2: "length (messages (sendMessage sampleEnv (initialize sampleEnv) (ascii ''hello''))) = 3"
    by (simp add: initialize_messages)
  from b have 3: "odd (length (messages (session sampleEnv
        [(sampleEnv, SelectMood (ascii ''sad'')), (sampleEnv, SendMessage (ascii ''   '')),
         (sampleEnv, SetLanguage hindi), (sampleEnv, SendMessage (ascii ''hello''))])))"
    by blast
  from blank_sample hello_nonblank 1 2 3 show ?thesis by blast
qed

end
